theory Spec2Isabelle
  imports Complex_Main "HOL-Library.AList"
begin

section \<open>Data model (types/bubble.ts)\<close>

text \<open>
  A JavaScript \<open>number\<close> is an IEEE 754 double. Two models of its arithmetic are used.
  In the first a number is an exact \<^typ>\<open>real\<close>, without rounding or overflow, and a result
  is a \<^typ>\<open>real option\<close> in which \<open>None\<close> stands for \<open>NaN\<close>, the result of 0/0. It agrees
  with the program on the inputs on which every intermediate result is a double, and it is
  used for the page-level scores and for examples of that kind only. The second model
  (\<open>binary64\<close> below) rounds every operation to the nearest double and has the infinities
  and \<open>NaN\<close>; every statement about \<open>calculateClientRiskScore\<close> on all inputs is made in
  it. The numeric fields of a record hold the numbers as they are written (in a literal,
  or in JSON); an optional field (\<open>userValue?: number\<close>) is an option.
\<close>

record Index =
  idx_id :: string
  idx_name :: string
  idx_description :: string
  idx_value :: real
  idx_marketWeight :: real
  idx_userValue :: "real option"
  idx_explanation :: string

record Category =
  cat_id :: string
  cat_name :: string
  cat_description :: string
  cat_indexes :: "Index list"
  cat_userWeight :: real
  cat_marketWeight :: real
  cat_explanation :: string

datatype RiskLevel = LOW | MEDIUM | HIGH

section \<open>Risk level (utils/dataMapper.ts, getRiskLevel)\<close>

definition getRiskLevel :: "real \<Rightarrow> RiskLevel" where
  "getRiskLevel score =
     (if score < 33 then LOW
      else if score < 67 then MEDIUM
      else HIGH)"

section \<open>Client-side risk score in exact arithmetic (utils/dataMapper.ts, calculateClientRiskScore)\<close>

text \<open>
  Division in the exact model, restricted to what these functions can reach: a zero
  divisor gives no finite number. (In every division below a zero divisor comes with a
  zero dividend, which is \<open>NaN\<close>.)
\<close>

definition js_div :: "real \<Rightarrow> real \<Rightarrow> real option" where
  "js_div a b = (if b = 0 then None else Some (a / b))"

text \<open>\<open>useUserValues && index.userValue !== undefined ? index.userValue : index.value\<close>\<close>

definition indexValue :: "bool \<Rightarrow> Index \<Rightarrow> real" where
  "indexValue useUserValues index =
     (if useUserValues
      then (case idx_userValue index of Some v \<Rightarrow> v | None \<Rightarrow> idx_value index)
      else idx_value index)"

text \<open>
  \<open>useUserValues ? 1 : index.marketWeight || 1\<close>: the operator \<open>||\<close> replaces a falsy
  left operand, here the number 0, by 1.
\<close>

definition indexWeight :: "bool \<Rightarrow> Index \<Rightarrow> real" where
  "indexWeight useUserValues index =
     (if useUserValues then 1
      else if idx_marketWeight index = 0 then 1 else idx_marketWeight index)"

text \<open>The body of the inner \<open>forEach\<close>, on the pair (categoryScore, categoryIndexWeight).\<close>

definition indexStep :: "bool \<Rightarrow> real \<times> real \<Rightarrow> Index \<Rightarrow> real \<times> real" where
  "indexStep useUserValues acc index =
     (case acc of (categoryScore, categoryIndexWeight) \<Rightarrow>
        (categoryScore + indexValue useUserValues index * indexWeight useUserValues index,
         categoryIndexWeight + indexWeight useUserValues index))"

text \<open>
  The inner loop and the guarded division after it: when the summed weight is not
  positive the sum of products is left undivided.
\<close>

definition categoryScore :: "bool \<Rightarrow> Category \<Rightarrow> real option" where
  "categoryScore useUserValues category =
     (case foldl (indexStep useUserValues) (0, 0) (cat_indexes category) of
        (score, categoryIndexWeight) \<Rightarrow>
          if categoryIndexWeight > 0 then js_div score categoryIndexWeight else Some score)"

definition categoryWeight :: "bool \<Rightarrow> Category \<Rightarrow> real" where
  "categoryWeight useUserValues category =
     (if useUserValues then cat_userWeight category else cat_marketWeight category)"

text \<open>
  The body of the outer \<open>forEach\<close>, on the pair (totalScore, totalWeight). A \<open>NaN\<close>
  category score would make totalScore \<open>NaN\<close> and leave totalWeight a number.
\<close>

definition categoryStep ::
  "bool \<Rightarrow> real option \<times> real \<Rightarrow> Category \<Rightarrow> real option \<times> real" where
  "categoryStep useUserValues acc category =
     (case acc of (totalScore, totalWeight) \<Rightarrow>
        ((case (totalScore, categoryScore useUserValues category) of
            (Some t, Some s) \<Rightarrow> Some (t + s * categoryWeight useUserValues category)
          | _ \<Rightarrow> None),
         totalWeight + categoryWeight useUserValues category))"

definition calculateClientRiskScore :: "Category list \<Rightarrow> bool \<Rightarrow> real option" where
  "calculateClientRiskScore categories useUserValues =
     (case foldl (categoryStep useUserValues) (Some 0, 0) categories of
        (totalScore, totalWeight) \<Rightarrow>
          if totalWeight > 0
          then (case totalScore of Some t \<Rightarrow> js_div t totalWeight | None \<Rightarrow> None)
          else Some 0)"

section \<open>Page-level scores (pages/MarketConsensus.tsx and the user analysis page)\<close>

text \<open>
  \<open>category.indexes.reduce((sum, index) => sum + index.value, 0) / category.indexes.length\<close>
\<close>

definition marketCategoryScore :: "Category \<Rightarrow> real option" where
  "marketCategoryScore category =
     js_div (foldl (\<lambda>sum index. sum + idx_value index) 0 (cat_indexes category))
            (real (length (cat_indexes category)))"

definition MarketConsensus_step ::
  "real option \<times> real \<Rightarrow> Category \<Rightarrow> real option \<times> real" where
  "MarketConsensus_step acc category =
     (case acc of (totalScore, totalWeight) \<Rightarrow>
        ((case (totalScore, marketCategoryScore category) of
            (Some t, Some s) \<Rightarrow> Some (t + s * cat_marketWeight category)
          | _ \<Rightarrow> None),
         totalWeight + cat_marketWeight category))"

text \<open>\<open>Math.min(100, x)\<close> of a \<open>NaN\<close> is \<open>NaN\<close>.\<close>

definition MarketConsensus_calculateScore :: "Category list \<Rightarrow> real option" where
  "MarketConsensus_calculateScore cats =
     (case foldl MarketConsensus_step (Some 0, 0) cats of
        (totalScore, totalWeight) \<Rightarrow>
          if totalWeight > 0
          then (case totalScore of
                  Some t \<Rightarrow> map_option (min 100) (js_div t totalWeight)
                | None \<Rightarrow> None)
          else Some 0)"

text \<open>
  The user analysis page: the mean of the effective values (the user's value when there
  is one), weighted by \<open>userWeight / 100\<close> and divided by the number of categories.
\<close>

definition userCategoryScore :: "Category \<Rightarrow> real option" where
  "userCategoryScore category =
     js_div (foldl (\<lambda>sum index. sum +
                      (case idx_userValue index of Some v \<Rightarrow> v | None \<Rightarrow> idx_value index))
               0 (cat_indexes category))
            (real (length (cat_indexes category)))"

definition UserAnalysis_step :: "real option \<Rightarrow> Category \<Rightarrow> real option" where
  "UserAnalysis_step totalScore category =
     (case (totalScore, userCategoryScore category) of
        (Some t, Some s) \<Rightarrow> Some (t + s * (cat_userWeight category / 100))
      | _ \<Rightarrow> None)"

definition UserAnalysis_calculateScore :: "Category list \<Rightarrow> real option" where
  "UserAnalysis_calculateScore cats =
     (case foldl UserAnalysis_step (Some 0) cats of
        Some t \<Rightarrow> map_option (min 100) (js_div t (real (length cats)))
      | None \<Rightarrow> None)"

section \<open>Double arithmetic (IEEE 754 binary64)\<close>

text \<open>
  A double is a finite number, an infinity or \<open>NaN\<close>. The two zeros are identified: they
  differ only in the sign of a quotient by zero.
\<close>

datatype number = Fin real | PosInfinity | NegInfinity | NaN

text \<open>The nearest integer, a tie going to the even one.\<close>

definition roundTiesToEven :: "real \<Rightarrow> int" where
  "roundTiesToEven q =
     (let f = \<lfloor>q\<rfloor> in
        if q - of_int f < 1 / 2 then f
        else if 1 / 2 < q - of_int f then f + 1
        else if even f then f else f + 1)"

text \<open>
  The double nearest to a real. With \<open>e\<close> the binary exponent of \<open>x\<close> (at least -1022,
  below which the subnormal numbers lie), the doubles around \<open>x\<close> are the multiples of
  \<open>2^(e - 52)\<close>; a result of magnitude \<open>2^1024\<close> or more is an infinity.
\<close>

definition binary64 :: "real \<Rightarrow> number" where
  "binary64 x =
     (if x = 0 then Fin 0
      else let e = max \<lfloor>log 2 \<bar>x\<bar>\<rfloor> (- 1022);
               ulp = 2 powi (e - 52);
               y = of_int (roundTiesToEven (x / ulp)) * ulp
           in if 2 ^ 1024 \<le> \<bar>y\<bar> then (if 0 < x then PosInfinity else NegInfinity)
              else Fin y)"

text \<open>The operators \<open>+\<close>, \<open>*\<close> and \<open>/\<close> of JavaScript on numbers.\<close>

fun add64 :: "number \<Rightarrow> number \<Rightarrow> number" where
  "add64 (Fin a) (Fin b) = binary64 (a + b)"
| "add64 NaN _ = NaN"
| "add64 _ NaN = NaN"
| "add64 PosInfinity NegInfinity = NaN"
| "add64 NegInfinity PosInfinity = NaN"
| "add64 PosInfinity _ = PosInfinity"
| "add64 _ PosInfinity = PosInfinity"
| "add64 NegInfinity _ = NegInfinity"
| "add64 _ NegInfinity = NegInfinity"

fun mul64 :: "number \<Rightarrow> number \<Rightarrow> number" where
  "mul64 (Fin a) (Fin b) = binary64 (a * b)"
| "mul64 NaN _ = NaN"
| "mul64 _ NaN = NaN"
| "mul64 (Fin a) PosInfinity =
     (if a = 0 then NaN else if 0 < a then PosInfinity else NegInfinity)"
| "mul64 (Fin a) NegInfinity =
     (if a = 0 then NaN else if 0 < a then NegInfinity else PosInfinity)"
| "mul64 PosInfinity (Fin b) =
     (if b = 0 then NaN else if 0 < b then PosInfinity else NegInfinity)"
| "mul64 NegInfinity (Fin b) =
     (if b = 0 then NaN else if 0 < b then NegInfinity else PosInfinity)"
| "mul64 PosInfinity PosInfinity = PosInfinity"
| "mul64 PosInfinity NegInfinity = NegInfinity"
| "mul64 NegInfinity PosInfinity = NegInfinity"
| "mul64 NegInfinity NegInfinity = PosInfinity"

fun div64 :: "number \<Rightarrow> number \<Rightarrow> number" where
  "div64 (Fin a) (Fin b) =
     (if b = 0 then (if a = 0 then NaN else if 0 < a then PosInfinity else NegInfinity)
      else binary64 (a / b))"
| "div64 NaN _ = NaN"
| "div64 _ NaN = NaN"
| "div64 (Fin a) PosInfinity = Fin 0"
| "div64 (Fin a) NegInfinity = Fin 0"
| "div64 PosInfinity (Fin b) = (if 0 \<le> b then PosInfinity else NegInfinity)"
| "div64 NegInfinity (Fin b) = (if 0 \<le> b then NegInfinity else PosInfinity)"
| "div64 _ _ = NaN"

text \<open>The test \<open>x > 0\<close>, false of \<open>NaN\<close>.\<close>

fun positive64 :: "number \<Rightarrow> bool" where
  "positive64 (Fin a) = (0 < a)"
| "positive64 PosInfinity = True"
| "positive64 _ = False"

text \<open>\<open>Math.min(100, x)\<close>\<close>

fun min100 :: "number \<Rightarrow> number" where
  "min100 (Fin a) = Fin (min 100 a)"
| "min100 PosInfinity = Fin 100"
| "min100 NegInfinity = NegInfinity"
| "min100 NaN = NaN"

text \<open>A number that is not an infinity or \<open>NaN\<close>; and a number that a double can hold.\<close>

definition finite64 :: "number \<Rightarrow> bool" where
  "finite64 x = (case x of Fin a \<Rightarrow> True | _ \<Rightarrow> False)"

definition double64 :: "number \<Rightarrow> bool" where
  "double64 x = (case x of Fin a \<Rightarrow> binary64 a = Fin a | _ \<Rightarrow> True)"

section \<open>calculateClientRiskScore in double arithmetic\<close>

text \<open>
  The function of utils/dataMapper.ts again, statement by statement, with the operations
  of the doubles. A field is read as the double nearest to the number written.
\<close>

definition indexValue64 :: "bool \<Rightarrow> Index \<Rightarrow> number" where
  "indexValue64 useUserValues index = binary64 (indexValue useUserValues index)"

text \<open>\<open>useUserValues ? 1 : index.marketWeight || 1\<close>\<close>

definition indexWeight64 :: "bool \<Rightarrow> Index \<Rightarrow> number" where
  "indexWeight64 useUserValues index =
     (if useUserValues then Fin 1
      else if binary64 (idx_marketWeight index) = Fin 0 then Fin 1
      else binary64 (idx_marketWeight index))"

text \<open>
  \<open>categoryScore += value * indexWeight; categoryIndexWeight += indexWeight\<close>, on the
  pair (categoryScore, categoryIndexWeight).
\<close>

definition indexStep64 :: "bool \<Rightarrow> number \<times> number \<Rightarrow> Index \<Rightarrow> number \<times> number" where
  "indexStep64 useUserValues acc index =
     (case acc of (score, categoryIndexWeight) \<Rightarrow>
        (add64 score
           (mul64 (indexValue64 useUserValues index) (indexWeight64 useUserValues index)),
         add64 categoryIndexWeight (indexWeight64 useUserValues index)))"

text \<open>
  The inner loop and \<open>if (categoryIndexWeight > 0) categoryScore = categoryScore /
  categoryIndexWeight\<close>. The result is the category score together with the divisors of
  the divisions performed: one, or none.
\<close>

definition categoryScore64 :: "bool \<Rightarrow> Category \<Rightarrow> number \<times> number list" where
  "categoryScore64 useUserValues category =
     (case foldl (indexStep64 useUserValues) (Fin 0, Fin 0) (cat_indexes category) of
        (score, categoryIndexWeight) \<Rightarrow>
          if positive64 categoryIndexWeight
          then (div64 score categoryIndexWeight, [categoryIndexWeight])
          else (score, []))"

definition categoryWeight64 :: "bool \<Rightarrow> Category \<Rightarrow> number" where
  "categoryWeight64 useUserValues category = binary64 (categoryWeight useUserValues category)"

text \<open>
  \<open>totalScore += categoryScore * weight; totalWeight += weight\<close>, on the triple of
  totalScore, totalWeight and the divisors used so far.
\<close>

definition categoryStep64 ::
  "bool \<Rightarrow> number \<times> number \<times> number list \<Rightarrow> Category \<Rightarrow> number \<times> number \<times> number list" where
  "categoryStep64 useUserValues acc category =
     (case acc of (totalScore, totalWeight, divisors) \<Rightarrow>
        (case categoryScore64 useUserValues category of (score, ds) \<Rightarrow>
           (add64 totalScore (mul64 score (categoryWeight64 useUserValues category)),
            add64 totalWeight (categoryWeight64 useUserValues category),
            divisors @ ds)))"

text \<open>
  \<open>return totalWeight > 0 ? totalScore / totalWeight : 0\<close>: the value returned, and the
  divisors of all the divisions performed on the way, in order.
\<close>

definition calculateClientRiskScore64 :: "Category list \<Rightarrow> bool \<Rightarrow> number \<times> number list" where
  "calculateClientRiskScore64 categories useUserValues =
     (case foldl (categoryStep64 useUserValues) (Fin 0, Fin 0, []) categories of
        (totalScore, totalWeight, divisors) \<Rightarrow>
          if positive64 totalWeight
          then (div64 totalScore totalWeight, divisors @ [totalWeight])
          else (Fin 0, divisors))"

section \<open>The scoring algorithm in the specification's words\<close>

text \<open>
  An indicator set as the specification has it: per category its weight and the list of
  (value, weight) pairs of its sub-indicators.
\<close>

type_synonym sub_indicator = "real \<times> real"
type_synonym indicator_set = "(real \<times> sub_indicator list) list"

text \<open>A sum of doubles, taken from 0 in the order of the list.\<close>

definition sum64 :: "number list \<Rightarrow> number" where
  "sum64 xs = foldl add64 (Fin 0) xs"

text \<open>
  \<open>category_score = \<Sigma>(value \<times> weight) / \<Sigma>(weight)\<close>, and 0 when the total
  sub-indicator weight is zero.
\<close>

definition spec_category_score64 :: "sub_indicator list \<Rightarrow> number" where
  "spec_category_score64 subs =
     (if sum64 (map (\<lambda>(v, w). binary64 w) subs) = Fin 0 then Fin 0
      else div64 (sum64 (map (\<lambda>(v, w). mul64 (binary64 v) (binary64 w)) subs))
                 (sum64 (map (\<lambda>(v, w). binary64 w) subs)))"

text \<open>\<open>risk_score = min(100, \<Sigma>(category_score \<times> category_weight) / \<Sigma>(category_weight))\<close>\<close>

definition spec_risk_score64 :: "indicator_set \<Rightarrow> number" where
  "spec_risk_score64 ind =
     min100 (div64 (sum64 (map (\<lambda>(cw, subs). mul64 (spec_category_score64 subs) (binary64 cw)) ind))
                   (sum64 (map (\<lambda>(cw, subs). binary64 cw) ind)))"

text \<open>
  The indicator set a category list stands for, given what counts as the weight of a
  sub-indicator: category weights and values are those of the mode (market, or the
  user's). \<open>indicator_set_of\<close> takes the weight each index declares, its
  \<open>marketWeight\<close> (the only weight field an index has).
\<close>

definition indicator_set_with ::
  "(Index \<Rightarrow> real) \<Rightarrow> bool \<Rightarrow> Category list \<Rightarrow> indicator_set" where
  "indicator_set_with weight useUserValues cats =
     map (\<lambda>c. (categoryWeight useUserValues c,
               map (\<lambda>i. (indexValue useUserValues i, weight i)) (cat_indexes c)))
         cats"

definition indicator_set_of :: "bool \<Rightarrow> Category list \<Rightarrow> indicator_set" where
  "indicator_set_of useUserValues cats = indicator_set_with idx_marketWeight useUserValues cats"

section \<open>Example data\<close>

definition mkIndex :: "string \<Rightarrow> real \<Rightarrow> real \<Rightarrow> real option \<Rightarrow> Index" where
  "mkIndex i v w uv =
     \<lparr>idx_id = i, idx_name = [], idx_description = [], idx_value = v,
      idx_marketWeight = w, idx_userValue = uv, idx_explanation = []\<rparr>"

definition mkCategory :: "string \<Rightarrow> Index list \<Rightarrow> real \<Rightarrow> real \<Rightarrow> Category" where
  "mkCategory c is uw mw =
     \<lparr>cat_id = c, cat_name = [], cat_description = [], cat_indexes = is,
      cat_userWeight = uw, cat_marketWeight = mw, cat_explanation = []\<rparr>"

text \<open>
  The constant \<open>CATEGORIES\<close> of types/bubble.ts: its ids, values and weights (the display
  texts are left empty).
\<close>

definition CATEGORIES :: "Category list" where
  "CATEGORIES =
     [mkCategory ''valuation''
        [mkIndex ''pe-ratio'' 85 (25 / 2) None,
         mkIndex ''revenue-multiple'' 78 (25 / 2) None,
         mkIndex ''market-cap'' 68 (25 / 2) None,
         mkIndex ''growth-premium'' 82 (25 / 2) None] 50 50,
      mkCategory ''sentiment''
        [mkIndex ''media-mentions'' 92 10 None,
         mkIndex ''social-sentiment'' 88 10 None,
         mkIndex ''search-trends'' 75 10 None,
         mkIndex ''analyst-ratings'' 80 10 None,
         mkIndex ''ipo-activity'' 70 10 None] 50 50,
      mkCategory ''positioning''
        [mkIndex ''fund-flows'' 72 10 None,
         mkIndex ''institutional'' 68 10 None,
         mkIndex ''retail-interest'' 85 10 None,
         mkIndex ''options-volume'' 76 10 None] 50 50,
      mkCategory ''macro''
        [mkIndex ''interest-rates'' 55 10 None,
         mkIndex ''liquidity'' 65 10 None,
         mkIndex ''vix'' 68 (25 / 2) None,
         mkIndex ''put-call'' 72 (25 / 2) None] 50 50,
      mkCategory ''fundamentals''
        [mkIndex ''revenue-growth'' 88 10 None,
         mkIndex ''profit-margins'' 62 10 None,
         mkIndex ''capex-cycle'' 78 10 None,
         mkIndex ''adoption-rate'' 70 10 None,
         mkIndex ''competition'' 75 5 None] 50 50]"

text \<open>
  The five categories with every value set to \<open>v\<close>, every sub-indicator weight to \<open>w\<close>,
  both category weights to \<open>cw\<close>, and no user value.
\<close>

definition uniformCategories :: "real \<Rightarrow> real \<Rightarrow> real \<Rightarrow> Category list" where
  "uniformCategories v w cw =
     map (\<lambda>c. c\<lparr>cat_indexes :=
                   map (\<lambda>i. i\<lparr>idx_value := v, idx_marketWeight := w\<rparr>) (cat_indexes c),
                 cat_userWeight := cw, cat_marketWeight := cw\<rparr>)
         CATEGORIES"

text \<open>The categories with the first \<open>n\<close> indexes of each removed.\<close>

definition dropIndexes :: "nat \<Rightarrow> Category list \<Rightarrow> Category list" where
  "dropIndexes n cats = map (\<lambda>c. c\<lparr>cat_indexes := drop n (cat_indexes c)\<rparr>) cats"

text \<open>The categories with the user value of every index set to \<open>v\<close>.\<close>

definition setUserValues :: "real \<Rightarrow> Category list \<Rightarrow> Category list" where
  "setUserValues v cats =
     map (\<lambda>c. c\<lparr>cat_indexes := map (\<lambda>i. i\<lparr>idx_userValue := Some v\<rparr>) (cat_indexes c)\<rparr>) cats"

text \<open>
  Two categories with different sub-indicator weights and different category weights.
\<close>

definition weightedExample :: "Category list" where
  "weightedExample =
     [mkCategory ''valuation'' [mkIndex ''pe-ratio'' 100 3 None,
                                mkIndex ''revenue-multiple'' 0 1 None] 60 60,
      mkCategory ''sentiment'' [mkIndex ''media-mentions'' 40 2 None] 40 40]"

section \<open>Metrics for the backend (utils/dataMapper.ts, categoriesToMetrics)\<close>

text \<open>\<open>throw new Error(message)\<close>: the error carries its message.\<close>

datatype error = Error string

text \<open>
  The object \<open>categoriesToMetrics\<close> returns, with the fields its object literal lists
  (five for sentiment and for fundamentals).
\<close>

record MetricsCategory1 =
  pe_ratio :: real
  revenue_multiple :: real
  market_cap_gdp :: real
  growth_premium :: real

record MetricsCategory2 =
  media_mentions :: real
  social_sentiment :: real
  search_trends :: real
  analyst_ratings :: real
  ipo_activity :: real

record MetricsCategory3 =
  fund_flows :: real
  institutional_holdings :: real
  retail_interest :: real
  options_volume :: real

record MetricsCategory4 =
  interest_rates :: real
  liquidity :: real
  vix :: real
  put_call_ratio :: real

record MetricsCategory5 =
  revenue_growth :: real
  profit_margins :: real
  capex_cycle :: real
  adoption_rate :: real
  competition :: real

record MetricsData =
  category_1_valuation :: MetricsCategory1
  category_2_sentiment :: MetricsCategory2
  category_3_positioning :: MetricsCategory3
  category_4_macro :: MetricsCategory4
  category_5_fundamentals :: MetricsCategory5

text \<open>The user's value if there is one and it is asked for, the market value otherwise.\<close>

definition getValue :: "bool \<Rightarrow> Index \<Rightarrow> real" where
  "getValue useUserValues index =
     (if useUserValues \<and> idx_userValue index \<noteq> None
      then (case idx_userValue index of Some v \<Rightarrow> v | None \<Rightarrow> idx_value index)
      else idx_value index)"

definition findIndex :: "Category \<Rightarrow> string \<Rightarrow> error + Index" where
  "findIndex category i =
     (case find (\<lambda>index. idx_id index = i) (cat_indexes category) of
        None \<Rightarrow> Inl (Error (''Index '' @ i @ '' not found in category '' @ cat_id category))
      | Some index \<Rightarrow> Inr index)"

text \<open>
  The fields of an object literal are evaluated in the order written, and the first
  \<open>throw\<close> ends the evaluation: \<open>bindE\<close> passes a value on and stops at an error.
  \<open>metric\<close> is \<open>getValue(findIndex(category, id))\<close>.
\<close>

definition bindE :: "'e + 'a \<Rightarrow> ('a \<Rightarrow> 'e + 'b) \<Rightarrow> 'e + 'b" where
  "bindE r f = (case r of Inl e \<Rightarrow> Inl e | Inr a \<Rightarrow> f a)"

definition metric :: "bool \<Rightarrow> Category \<Rightarrow> string \<Rightarrow> error + real" where
  "metric useUserValues category i =
     bindE (findIndex category i) (\<lambda>index. Inr (getValue useUserValues index))"

definition valuationMetrics :: "bool \<Rightarrow> Category \<Rightarrow> error + MetricsCategory1" where
  "valuationMetrics u valuation =
     bindE (metric u valuation ''pe-ratio'') (\<lambda>a.
     bindE (metric u valuation ''revenue-multiple'') (\<lambda>b.
     bindE (metric u valuation ''market-cap'') (\<lambda>c.
     bindE (metric u valuation ''growth-premium'') (\<lambda>d.
       Inr \<lparr>pe_ratio = a, revenue_multiple = b, market_cap_gdp = c, growth_premium = d\<rparr>))))"

definition sentimentMetrics :: "bool \<Rightarrow> Category \<Rightarrow> error + MetricsCategory2" where
  "sentimentMetrics u sentiment =
     bindE (metric u sentiment ''media-mentions'') (\<lambda>a.
     bindE (metric u sentiment ''social-sentiment'') (\<lambda>b.
     bindE (metric u sentiment ''search-trends'') (\<lambda>c.
     bindE (metric u sentiment ''analyst-ratings'') (\<lambda>d.
     bindE (metric u sentiment ''ipo-activity'') (\<lambda>e.
       Inr \<lparr>media_mentions = a, social_sentiment = b, search_trends = c,
            analyst_ratings = d, ipo_activity = e\<rparr>)))))"

definition positioningMetrics :: "bool \<Rightarrow> Category \<Rightarrow> error + MetricsCategory3" where
  "positioningMetrics u positioning =
     bindE (metric u positioning ''fund-flows'') (\<lambda>a.
     bindE (metric u positioning ''institutional'') (\<lambda>b.
     bindE (metric u positioning ''retail-interest'') (\<lambda>c.
     bindE (metric u positioning ''options-volume'') (\<lambda>d.
       Inr \<lparr>fund_flows = a, institutional_holdings = b, retail_interest = c,
            options_volume = d\<rparr>))))"

definition macroMetrics :: "bool \<Rightarrow> Category \<Rightarrow> error + MetricsCategory4" where
  "macroMetrics u macro =
     bindE (metric u macro ''interest-rates'') (\<lambda>a.
     bindE (metric u macro ''liquidity'') (\<lambda>b.
     bindE (metric u macro ''vix'') (\<lambda>c.
     bindE (metric u macro ''put-call'') (\<lambda>d.
       Inr \<lparr>interest_rates = a, liquidity = b, vix = c, put_call_ratio = d\<rparr>))))"

definition fundamentalsMetrics :: "bool \<Rightarrow> Category \<Rightarrow> error + MetricsCategory5" where
  "fundamentalsMetrics u fundamentals =
     bindE (metric u fundamentals ''revenue-growth'') (\<lambda>a.
     bindE (metric u fundamentals ''profit-margins'') (\<lambda>b.
     bindE (metric u fundamentals ''capex-cycle'') (\<lambda>c.
     bindE (metric u fundamentals ''adoption-rate'') (\<lambda>d.
     bindE (metric u fundamentals ''competition'') (\<lambda>e.
       Inr \<lparr>revenue_growth = a, profit_margins = b, capex_cycle = c,
            adoption_rate = d, competition = e\<rparr>)))))"

text \<open>\<open>categories.find((c) => c.id === id)\<close>: the first category of that id, if any.\<close>

definition findCategory :: "Category list \<Rightarrow> string \<Rightarrow> Category option" where
  "findCategory categories i = find (\<lambda>c. cat_id c = i) categories"

definition categoriesToMetrics :: "Category list \<Rightarrow> bool \<Rightarrow> error + MetricsData" where
  "categoriesToMetrics categories useUserValues =
     (case (findCategory categories ''valuation'',
            findCategory categories ''sentiment'',
            findCategory categories ''positioning'',
            findCategory categories ''macro'',
            findCategory categories ''fundamentals'') of
        (Some valuation, Some sentiment, Some positioning, Some macro, Some fundamentals) \<Rightarrow>
          bindE (valuationMetrics useUserValues valuation) (\<lambda>c1.
          bindE (sentimentMetrics useUserValues sentiment) (\<lambda>c2.
          bindE (positioningMetrics useUserValues positioning) (\<lambda>c3.
          bindE (macroMetrics useUserValues macro) (\<lambda>c4.
          bindE (fundamentalsMetrics useUserValues fundamentals) (\<lambda>c5.
            Inr \<lparr>category_1_valuation = c1, category_2_sentiment = c2,
                 category_3_positioning = c3, category_4_macro = c4,
                 category_5_fundamentals = c5\<rparr>)))))
      | _ \<Rightarrow> Inl (Error ''Missing required categories''))"

section \<open>What a payload must contain, in the specification's words\<close>

text \<open>
  The five categories and the named sub-indicators of each, in the order of the fields
  of the result.
\<close>

definition requiredIndexes :: "(string \<times> string list) list" where
  "requiredIndexes =
     [(''valuation'', [''pe-ratio'', ''revenue-multiple'', ''market-cap'', ''growth-premium'']),
      (''sentiment'', [''media-mentions'', ''social-sentiment'', ''search-trends'',
                      ''analyst-ratings'', ''ipo-activity'']),
      (''positioning'', [''fund-flows'', ''institutional'', ''retail-interest'',
                        ''options-volume'']),
      (''macro'', [''interest-rates'', ''liquidity'', ''vix'', ''put-call'']),
      (''fundamentals'', [''revenue-growth'', ''profit-margins'', ''capex-cycle'',
                         ''adoption-rate'', ''competition''])]"

definition requiredFields :: "(string \<times> string) list" where
  "requiredFields = concat (map (\<lambda>(c, is). map (Pair c) is) requiredIndexes)"

text \<open>The ids of a payload: per category its id and the ids of its indexes.\<close>

definition idsOf :: "Category list \<Rightarrow> (string \<times> string list) list" where
  "idsOf cats = map (\<lambda>c. (cat_id c, map idx_id (cat_indexes c))) cats"

text \<open>One of the five categories is missing.\<close>

definition missingCategory :: "(string \<times> string list) list \<Rightarrow> bool" where
  "missingCategory ids = list_ex (\<lambda>c. c \<notin> set (map fst ids)) (map fst requiredIndexes)"

text \<open>
  The field (category id, index id) is missing from a present category: the first
  category of that id lists no index of that id.
\<close>

definition missingIndex :: "(string \<times> string list) list \<Rightarrow> string \<times> string \<Rightarrow> bool" where
  "missingIndex ids field =
     (case find (\<lambda>entry. fst entry = fst field) ids of
        None \<Rightarrow> False
      | Some entry \<Rightarrow> snd field \<notin> set (snd entry))"

definition firstMissingIndex :: "(string \<times> string list) list \<Rightarrow> (string \<times> string) option" where
  "firstMissingIndex ids = find (missingIndex ids) requiredFields"

text \<open>The error \<open>findIndex\<close> throws for index \<open>i\<close> of category \<open>c\<close>.\<close>

definition notFound :: "string \<Rightarrow> string \<Rightarrow> error" where
  "notFound c i = Error (''Index '' @ i @ '' not found in category '' @ c)"

text \<open>
  The error a payload of these ids is to fail with, if any: the fixed message when a
  category is missing, else the message for the first missing field.
\<close>

definition expectedError :: "(string \<times> string list) list \<Rightarrow> error option" where
  "expectedError ids =
     (if missingCategory ids then Some (Error ''Missing required categories'')
      else map_option (\<lambda>(c, i). notFound c i) (firstMissingIndex ids))"

text \<open>The error of a category's block: its first index id, in field order, that is absent.\<close>

definition blockError :: "Category \<Rightarrow> string list \<Rightarrow> error option" where
  "blockError c is =
     map_option (notFound (cat_id c)) (find (\<lambda>i. i \<notin> set (map idx_id (cat_indexes c))) is)"

text \<open>The error a result carries, if it is one.\<close>

definition errorOf :: "'e + 'a \<Rightarrow> 'e option" where
  "errorOf r = (case r of Inl e \<Rightarrow> Some e | Inr _ \<Rightarrow> None)"

text \<open>The 22 numbers of a result, in field order.\<close>

definition metricValues :: "MetricsData \<Rightarrow> real list" where
  "metricValues m =
     [pe_ratio (category_1_valuation m), revenue_multiple (category_1_valuation m),
      market_cap_gdp (category_1_valuation m), growth_premium (category_1_valuation m),
      media_mentions (category_2_sentiment m), social_sentiment (category_2_sentiment m),
      search_trends (category_2_sentiment m), analyst_ratings (category_2_sentiment m),
      ipo_activity (category_2_sentiment m),
      fund_flows (category_3_positioning m), institutional_holdings (category_3_positioning m),
      retail_interest (category_3_positioning m), options_volume (category_3_positioning m),
      interest_rates (category_4_macro m), liquidity (category_4_macro m),
      vix (category_4_macro m), put_call_ratio (category_4_macro m),
      revenue_growth (category_5_fundamentals m), profit_margins (category_5_fundamentals m),
      capex_cycle (category_5_fundamentals m), adoption_rate (category_5_fundamentals m),
      competition (category_5_fundamentals m)]"

text \<open>The result in which every number is \<open>v\<close>.\<close>

definition uniformMetrics :: "real \<Rightarrow> MetricsData" where
  "uniformMetrics v =
     \<lparr>category_1_valuation =
        \<lparr>pe_ratio = v, revenue_multiple = v, market_cap_gdp = v, growth_premium = v\<rparr>,
      category_2_sentiment =
        \<lparr>media_mentions = v, social_sentiment = v, search_trends = v, analyst_ratings = v,
         ipo_activity = v\<rparr>,
      category_3_positioning =
        \<lparr>fund_flows = v, institutional_holdings = v, retail_interest = v,
         options_volume = v\<rparr>,
      category_4_macro =
        \<lparr>interest_rates = v, liquidity = v, vix = v, put_call_ratio = v\<rparr>,
      category_5_fundamentals =
        \<lparr>revenue_growth = v, profit_margins = v, capex_cycle = v, adoption_rate = v,
         competition = v\<rparr>\<rparr>"

text \<open>A category list with every \<open>userValue\<close> removed.\<close>

definition eraseUserValues :: "Category list \<Rightarrow> Category list" where
  "eraseUserValues cats =
     map (\<lambda>c. c\<lparr>cat_indexes := map (\<lambda>i. i\<lparr>idx_userValue := None\<rparr>) (cat_indexes c)\<rparr>) cats"

section \<open>Bubble states on the client (types/api.ts, hooks/useBubbleState.ts)\<close>

record BubbleState =
  risk_score :: real
  risk_level :: RiskLevel
  personality :: string
  summary :: string

record ConversationResponse =
  conversation_id :: string
  user_transcript :: string
  bubble_response :: string
  audio_base64 :: string
  bubble_state :: BubbleState

text \<open>
  The query cache, from query keys to cached data; \<open>useInitializeBubble\<close> stores the
  response of a successful initialization under the key \<open>["bubbleState", bubbleId]\<close>:
  \<open>queryClient.setQueryData(["bubbleState", variables.bubbleId], data)\<close>.
\<close>

type_synonym QueryCache = "string list \<Rightarrow> BubbleState option"

definition setQueryData :: "QueryCache \<Rightarrow> string list \<Rightarrow> BubbleState \<Rightarrow> QueryCache" where
  "setQueryData cache key data = cache(key \<mapsto> data)"

definition onSuccess :: "QueryCache \<Rightarrow> BubbleState \<Rightarrow> string \<Rightarrow> QueryCache" where
  "onSuccess cache data bubbleId = setQueryData cache [''bubbleState'', bubbleId] data"

section \<open>The bubble state store and the conversation pipeline\<close>

text \<open>
  Modelled from the spec: the backend (the state store and the conversation orchestrator
  behind \<open>/api/initialize\<close>, \<open>/api/bubble-status\<close> and \<open>/api/chat/voice\<close>) is not among
  the sources; only its callers and the types of its requests and responses are. The
  definitions of this section follow sections 3, 4.4, 4.5 and 7 of the specification. The
  payload and the snapshot have the types of types/api.ts. What the backend computes from
  a payload (sections 4.1 to 4.3: validation, score, level, persona) is a parameter
  \<open>agent\<close>; the three external collaborators are parameters too, and a call that reads
  the clock takes the time.
\<close>

datatype api_error =
    ValidationError string
  | NotFoundError string
  | TranscriptionError
  | GenerationError
  | SynthesisError

text \<open>
  Modelled from the spec: a conversation turn (section 3), the user's utterance and the
  agent's reply with a timestamp.
\<close>

record Turn =
  user_text :: string
  agent_text :: string
  timestamp :: nat

text \<open>
  Modelled from the spec: the state of a bubble (section 3), which the backend keeps: the
  current indicators, the last snapshot, and the conversation logs by conversation
  identifier, in the order the conversations were created.
\<close>

record BubbleRecord =
  indicators :: MetricsData
  snapshot :: BubbleState
  conversations :: "(string \<times> Turn list) list"

type_synonym Store = "string \<Rightarrow> BubbleRecord option"

text \<open>
  Modelled from the spec: \<open>upsert\<close> of the backend's store (section 4.4). Run the
  pipeline; on success replace the indicators and the snapshot and leave the conversation
  logs as they are (none for a new bubble); on a validation error nothing is stored.
\<close>

definition upsert ::
  "(MetricsData \<Rightarrow> api_error + BubbleState) \<Rightarrow> string \<Rightarrow> MetricsData \<Rightarrow> Store
     \<Rightarrow> api_error + BubbleState \<times> Store" where
  "upsert agent bubbleId metrics store =
     (case agent metrics of
        Inl e \<Rightarrow> Inl e
      | Inr snap \<Rightarrow>
          Inr (snap,
               store(bubbleId \<mapsto>
                 \<lparr>indicators = metrics, snapshot = snap,
                  conversations =
                    (case store bubbleId of None \<Rightarrow> [] | Some old \<Rightarrow> conversations old)\<rparr>)))"

text \<open>
  Modelled from the spec: \<open>get\<close> of the backend's store (section 4.4), which fails for
  an identifier never initialized.
\<close>

definition get :: "string \<Rightarrow> Store \<Rightarrow> api_error + BubbleState" where
  "get bubbleId store =
     (case store bubbleId of
        None \<Rightarrow> Inl (NotFoundError bubbleId)
      | Some r \<Rightarrow> Inr (snapshot r))"

text \<open>
  Modelled from the spec: \<open>history\<close> of the backend's store (section 4.4). The log of
  a conversation is empty if the identifier is unseen.
\<close>

definition logOf :: "(string \<times> Turn list) list \<Rightarrow> string \<Rightarrow> Turn list" where
  "logOf convs conversationId =
     (case map_of convs conversationId of None \<Rightarrow> [] | Some turns \<Rightarrow> turns)"

definition history :: "string \<Rightarrow> string \<Rightarrow> Store \<Rightarrow> Turn list" where
  "history bubbleId conversationId store =
     (case store bubbleId of
        None \<Rightarrow> []
      | Some r \<Rightarrow> logOf (conversations r) conversationId)"

text \<open>
  Modelled from the spec: the conversation identifiers the backend's store has a log for,
  for one bubble.
\<close>

definition conversationIds :: "string \<Rightarrow> Store \<Rightarrow> string list" where
  "conversationIds bubbleId store =
     (case store bubbleId of None \<Rightarrow> [] | Some r \<Rightarrow> map fst (conversations r))"

text \<open>
  Modelled from the spec: \<open>appendTurn\<close> of the backend's store (section 4.4). The pair
  (user utterance, agent reply) goes to the end of the log of the conversation, which is
  created on its first turn.
\<close>

definition appendTurn ::
  "string \<Rightarrow> string \<Rightarrow> string \<Rightarrow> string \<Rightarrow> nat \<Rightarrow> Store \<Rightarrow> api_error + Store" where
  "appendTurn bubbleId conversationId userText agentText now store =
     (case store bubbleId of
        None \<Rightarrow> Inl (NotFoundError bubbleId)
      | Some r \<Rightarrow>
          Inr (store(bubbleId \<mapsto>
                 r\<lparr>conversations :=
                     AList.update conversationId
                       (logOf (conversations r) conversationId
                          @ [\<lparr>user_text = userText, agent_text = agentText, timestamp = now\<rparr>])
                       (conversations r)\<rparr>)))"

text \<open>
  Modelled from the spec: the backend's minting of a conversation identifier (section
  4.5), of which the specification says only that the identifier is new. Here: one longer
  than every identifier the bubble has a log for, hence none of them.
\<close>

definition mintConversationId :: "string list \<Rightarrow> string" where
  "mintConversationId known =
     replicate (Suc (foldr (\<lambda>i n. max (length i) n) known 0)) (CHR ''c'')"

text \<open>
  Modelled from the spec: the prompt the backend builds (section 4.5): persona, summary
  of the snapshot, the prior turns of this conversation and the new utterance.
\<close>

record Prompt =
  prompt_persona :: string
  prompt_summary :: string
  prompt_history :: "Turn list"
  prompt_utterance :: string

text \<open>
  Modelled from the spec: the external collaborators of the backend (section 6);
  \<open>None\<close> is a failure of the provider.
\<close>

record Collaborators =
  transcribe :: "string \<Rightarrow> string option"
  generate :: "Prompt \<Rightarrow> string option"
  synthesize :: "string \<Rightarrow> string option"

text \<open>
  Modelled from the spec: the backend's conversation orchestrator (section 4.5). One
  voice call, stage by stage; the first failure ends it and leaves the store as it was.
  Without a conversation identifier a new one is minted and returned.
\<close>

definition voiceConversation ::
  "Collaborators \<Rightarrow> nat \<Rightarrow> string \<Rightarrow> string \<Rightarrow> string option \<Rightarrow> Store
     \<Rightarrow> api_error + ConversationResponse \<times> Store" where
  "voiceConversation coll now bubbleId audio conversationId store =
     (case transcribe coll audio of
        None \<Rightarrow> Inl TranscriptionError
      | Some utterance \<Rightarrow>
     (case store bubbleId of
        None \<Rightarrow> Inl (NotFoundError bubbleId)
      | Some r \<Rightarrow>
     (let cid = (case conversationId of
                   Some c \<Rightarrow> c
                 | None \<Rightarrow> mintConversationId (conversationIds bubbleId store))
      in
     (case generate coll
             \<lparr>prompt_persona = personality (snapshot r), prompt_summary = summary (snapshot r),
              prompt_history = history bubbleId cid store, prompt_utterance = utterance\<rparr> of
        None \<Rightarrow> Inl GenerationError
      | Some reply \<Rightarrow>
     (case synthesize coll reply of
        None \<Rightarrow> Inl SynthesisError
      | Some speech \<Rightarrow>
     (case appendTurn bubbleId cid utterance reply now store of
        Inl e \<Rightarrow> Inl e
      | Inr store' \<Rightarrow>
          Inr (\<lparr>conversation_id = cid, user_transcript = utterance, bubble_response = reply,
                audio_base64 = speech, bubble_state = snapshot r\<rparr>,
               store')))))))"

text \<open>
  Modelled from the spec: the calls the backend serves (section 6), for runs of
  initializations and voice calls one after the other. A run goes from a store and the
  list of (bubble, conversation identifier) pairs issued so far, that is, returned by a
  successful voice call. A failed call changes nothing.
\<close>

datatype event =
    Initialize string MetricsData
  | Voice nat string string "string option"

text \<open>
  Modelled from the spec: one event of a run of the backend, a call of Initialize or of
  Voice conversation (section 6) on the store.
\<close>

fun step ::
  "(MetricsData \<Rightarrow> api_error + BubbleState) \<Rightarrow> Collaborators
     \<Rightarrow> Store \<times> (string \<times> string) list \<Rightarrow> event \<Rightarrow> Store \<times> (string \<times> string) list" where
  "step agent coll (store, issued) (Initialize bubbleId metrics) =
     (case upsert agent bubbleId metrics store of
        Inl e \<Rightarrow> (store, issued)
      | Inr (snap, store') \<Rightarrow> (store', issued))"
| "step agent coll (store, issued) (Voice now bubbleId audio conversationId) =
     (case voiceConversation coll now bubbleId audio conversationId store of
        Inl e \<Rightarrow> (store, issued)
      | Inr (response, store') \<Rightarrow> (store', issued @ [(bubbleId, conversation_id response)]))"

text \<open>
  Modelled from the spec: the backend's state after a list of calls, from the empty store
  of a fresh process.
\<close>

definition run ::
  "(MetricsData \<Rightarrow> api_error + BubbleState) \<Rightarrow> Collaborators \<Rightarrow> event list
     \<Rightarrow> Store \<times> (string \<times> string) list" where
  "run agent coll events = foldl (step agent coll) (Map.empty, []) events"

text \<open>Example collaborators and an example pipeline, for concrete runs.\<close>

definition echoCollaborators :: Collaborators where
  "echoCollaborators =
     \<lparr>transcribe = (\<lambda>audio. if audio = [] then None else Some audio),
      generate = (\<lambda>p. Some (prompt_persona p @ '': '' @ prompt_utterance p)),
      synthesize = (\<lambda>text. Some text)\<rparr>"

definition exampleAgent :: "MetricsData \<Rightarrow> api_error + BubbleState" where
  "exampleAgent metrics =
     (if pe_ratio (category_1_valuation metrics) < 0
      then Inl (ValidationError ''pe_ratio'')
      else Inr \<lparr>risk_score = pe_ratio (category_1_valuation metrics),
               risk_level = getRiskLevel (pe_ratio (category_1_valuation metrics)),
               personality = ''anxious'', summary = ''metrics''\<rparr>)"

text \<open>
  A store after a short run: the personal bubble initialized and spoken to once, the
  market bubble initialized.
\<close>

definition exampleStore :: Store where
  "exampleStore =
     fst (run exampleAgent echoCollaborators
            [Initialize ''personal_user'' (uniformMetrics 50),
             Voice 1 ''personal_user'' ''hello'' (Some ''talk''),
             Initialize ''market'' (uniformMetrics 20)])"

text \<open>A run on the market bubble: initialized, then spoken to twice.\<close>

definition exampleEvents :: "event list" where
  "exampleEvents =
     [Initialize ''market'' (uniformMetrics 50),
      Voice 1 ''market'' ''hello'' None,
      Voice 2 ''market'' ''again'' (Some ''cc'')]"

section \<open>Risk level thresholds\<close>

text \<open>
  C2 (as stated in the specification): a score below 33.34 is LOW and a score of at least
  66.67 is HIGH. The function compares with 33 and 67 instead: 33.33999 is not below 33,
  so it is MEDIUM, and 66.67 is below 67, so it is MEDIUM too.
\<close>

theorem C2_thresholds_counterexample:
  "getRiskLevel (3333999 / 100000) \<noteq> LOW \<and> getRiskLevel (6667 / 100) \<noteq> HIGH"
  by (simp add: getRiskLevel_def)

text \<open>
  C2 (amended): the thresholds are the constants 33 and 67: a score strictly below 33 is
  LOW, a score strictly between 33 and 67 is MEDIUM, and a score is HIGH exactly when it
  is at least 67 (inclusive at 67); so 33.34, 33.33999, 66.67 and 66.66999 are all MEDIUM.
\<close>

theorem C2_thresholds_amended:
  "(score < 33 \<longrightarrow> getRiskLevel score = LOW)
   \<and> (33 < score \<and> score < 67 \<longrightarrow> getRiskLevel score = MEDIUM)
   \<and> (getRiskLevel score = HIGH \<longleftrightarrow> 67 \<le> score)
   \<and> getRiskLevel (3334 / 100) = MEDIUM
   \<and> getRiskLevel (3333999 / 100000) = MEDIUM
   \<and> getRiskLevel (6667 / 100) = MEDIUM
   \<and> getRiskLevel (6666999 / 100000) = MEDIUM"
  by (simp add: getRiskLevel_def)

theorem C2_thresholds_witness:
  "getRiskLevel 10 = LOW \<and> getRiskLevel 50 = MEDIUM \<and> getRiskLevel 67 = HIGH
   \<and> getRiskLevel (6699 / 100) \<noteq> HIGH"
  using C2_thresholds_amended [of 10] C2_thresholds_amended [of 50]
        C2_thresholds_amended [of 67] C2_thresholds_amended [of "6699 / 100"]
  by simp

section \<open>Rounding to a double\<close>

lemma roundTiesToEven_of_int [simp]: "roundTiesToEven (of_int n) = n"
  by (simp add: roundTiesToEven_def)

lemma roundTiesToEven_bounds: "\<lfloor>q\<rfloor> \<le> roundTiesToEven q \<and> roundTiesToEven q \<le> \<lfloor>q\<rfloor> + 1"
  by (simp add: roundTiesToEven_def Let_def)

lemma powr2_powi: "2 powr real_of_int n = 2 powi n"
  by (rule powr_real_of_int') simp_all

lemma floor_log2_bracket:
  assumes "x \<noteq> 0"
  shows "2 powi \<lfloor>log 2 \<bar>x\<bar>\<rfloor> \<le> \<bar>x\<bar> \<and> \<bar>x\<bar> < 2 powi (\<lfloor>log 2 \<bar>x\<bar>\<rfloor> + 1)"
proof -
  have "0 < \<bar>x\<bar>" using assms by simp
  then have "2 powr real_of_int \<lfloor>log 2 \<bar>x\<bar>\<rfloor> \<le> \<bar>x\<bar>
             \<and> \<bar>x\<bar> < 2 powr real_of_int (\<lfloor>log 2 \<bar>x\<bar>\<rfloor> + 1)"
    using floor_log_eq_powr_iff [of "\<bar>x\<bar>" 2 "\<lfloor>log 2 \<bar>x\<bar>\<rfloor>"] by fastforce
  then show ?thesis
    unfolding powr2_powi .
qed

lemma floor_log2_eq:
  assumes "2 powi e \<le> \<bar>x\<bar>" "\<bar>x\<bar> < 2 powi (e + 1)"
  shows "\<lfloor>log 2 \<bar>x\<bar>\<rfloor> = e"
proof -
  have "0 < (2::real) powi e" by (simp add: zero_less_power_int)
  with assms have "0 < \<bar>x\<bar>" by linarith
  then have "(\<lfloor>log 2 \<bar>x\<bar>\<rfloor> = e) =
               (2 powr real_of_int e \<le> \<bar>x\<bar> \<and> \<bar>x\<bar> < 2 powr real_of_int (e + 1))"
    by (intro floor_log_eq_powr_iff) simp_all
  then show ?thesis
    unfolding powr2_powi using assms by blast
qed

text \<open>
  Rounding in the normal range, with the exponent supplied: the result is the multiple of
  \<open>2^(e - 52)\<close> nearest to \<open>x\<close>, and there is no overflow.
\<close>

lemma binary64_normal:
  assumes lo: "2 powi e \<le> \<bar>x\<bar>" and hi: "\<bar>x\<bar> < 2 powi (e + 1)"
    and e: "- 1022 \<le> e" "e \<le> 1022"
  shows "binary64 x = Fin (of_int (roundTiesToEven (x * 2 powi (52 - e))) * 2 powi (e - 52))"
proof -
  have pos: "0 < (2::real) powi n" for n by (simp add: zero_less_power_int)
  have "0 < \<bar>x\<bar>" using lo pos [of e] by linarith
  then have x0: "x \<noteq> 0" by simp
  have fl: "\<lfloor>log 2 \<bar>x\<bar>\<rfloor> = e" using lo hi by (rule floor_log2_eq)
  have inv: "x / 2 powi (e - 52) = x * 2 powi (52 - e)"
    by (simp add: power_int_diff field_simps)
  define q where "q = x * 2 powi (52 - e)"
  have "\<bar>q\<bar> = \<bar>x\<bar> * 2 powi (52 - e)"
    by (simp add: q_def abs_mult power_int_def)
  also have "\<dots> < 2 powi (e + 1) * 2 powi (52 - e)"
    using hi pos [of "52 - e"] by (simp add: mult_strict_right_mono)
  also have "\<dots> = 2 powi 53"
    by (simp add: power_int_add [symmetric])
  finally have qb: "\<bar>q\<bar> < 2 ^ 53" by simp
  then have "\<lfloor>q\<rfloor> < 2 ^ 53" "- (2 ^ 53) \<le> \<lfloor>q\<rfloor>"
    by (simp_all add: floor_less_iff le_floor_iff abs_less_iff)
  then have rb: "\<bar>roundTiesToEven q\<bar> \<le> 2 ^ 53"
    using roundTiesToEven_bounds [of q] by linarith
  have "\<bar>of_int (roundTiesToEven q) * (2::real) powi (e - 52)\<bar>
          = of_int \<bar>roundTiesToEven q\<bar> * 2 powi (e - 52)"
    using pos [of "e - 52"] by (simp add: abs_mult)
  also have "\<dots> \<le> of_int (2 ^ 53) * 2 powi (e - 52)"
  proof (rule mult_right_mono)
    show "real_of_int \<bar>roundTiesToEven q\<bar> \<le> real_of_int (2 ^ 53)"
      using rb by (simp only: of_int_le_iff)
    show "0 \<le> (2::real) powi (e - 52)"
      using pos [of "e - 52"] by simp
  qed
  also have "\<dots> = 2 powi 53 * 2 powi (e - 52)" by simp
  also have "\<dots> = 2 powi (e + 1)"
  proof -
    have "(2::real) powi (53 + (e - 52)) = 2 powi 53 * 2 powi (e - 52)"
      by (rule power_int_add) simp
    moreover have "53 + (e - 52) = e + 1" by simp
    ultimately show ?thesis by (simp only:)
  qed
  also have "\<dots> \<le> 2 powi 1023"
    using e by (intro power_int_increasing) simp_all
  also have "\<dots> < 2 ^ 1024" by simp
  finally have "\<not> 2 ^ 1024 \<le> \<bar>of_int (roundTiesToEven q) * (2::real) powi (e - 52)\<bar>"
    by simp
  then show ?thesis
    using x0 e by (simp add: binary64_def fl inv q_def Let_def)
qed

text \<open>
  No rounding: a multiple of \<open>2^(-j)\<close> whose numerator is below \<open>2^53\<close> is a double.
\<close>

lemma binary64_exact:
  assumes int: "2 ^ j * x \<in> \<int>" and bound: "\<bar>x\<bar> < 2 ^ 53 / 2 ^ j" and j: "j \<le> 1022"
  shows "binary64 x = Fin x"
proof (cases "x = 0")
  case True
  then show ?thesis by (simp add: binary64_def)
next
  case False
  have pos: "0 < (2::real) powi n" for n by (simp add: zero_less_power_int)
  define e where "e = \<lfloor>log 2 \<bar>x\<bar>\<rfloor>"
  have br: "2 powi e \<le> \<bar>x\<bar>" "\<bar>x\<bar> < 2 powi (e + 1)"
    using floor_log2_bracket [OF False] by (simp_all add: e_def)
  obtain n :: int where n: "2 ^ j * x = of_int n"
    using int by (auto elim: Ints_cases)
  have xn: "x = of_int n * 2 powi (- int j)"
    using n by (simp add: power_int_minus field_simps)
  have "n \<noteq> 0" using n False by auto
  then have "1 \<le> \<bar>n\<bar>" by simp
  then have "(1::real) \<le> of_int \<bar>n\<bar>" by (simp only: of_int_1_le_iff)
  then have "2 powi (- int j) \<le> of_int \<bar>n\<bar> * (2::real) powi (- int j)"
    using pos [of "- int j"] by simp
  also have "\<dots> = \<bar>x\<bar>" using pos [of "- int j"] by (simp add: xn abs_mult)
  finally have "2 powi (- int j) < (2::real) powi (e + 1)" using br(2) by simp
  then have elo: "- int j \<le> e"
    using power_int_increasing [of "e + 1" "- int j" "2::real"] by (cases "- int j \<le> e") auto
  have "\<bar>x\<bar> < 2 powi (53 - int j)"
    using bound by (simp add: power_int_diff)
  with br(1) have "(2::real) powi e < 2 powi (53 - int j)" by simp
  then have ehi: "e \<le> 52 - int j"
    using power_int_increasing [of "53 - int j" e "2::real"] by (cases "e \<le> 52 - int j") auto
  have e: "- 1022 \<le> e" "e \<le> 1022" using elo ehi j by simp_all
  define k where "k = nat (52 - e - int j)"
  have k: "int k = 52 - e - int j" using ehi by (simp add: k_def)
  have "x * 2 powi (52 - e) = of_int n * (2 powi (- int j) * 2 powi (52 - e))"
    by (simp add: xn)
  also have "2 powi (- int j) * (2::real) powi (52 - e) = 2 powi (int k)"
    by (simp add: power_int_add [symmetric] k)
  also have "\<dots> = of_int (2 ^ k)" by (simp add: power_int_of_nat)
  finally have q: "x * 2 powi (52 - e) = of_int (n * 2 ^ k)" by simp
  have "of_int (n * 2 ^ k) * (2::real) powi (e - 52) = x * (2 powi (52 - e) * 2 powi (e - 52))"
    by (simp only: q [symmetric] mult.assoc)
  also have "2 powi (52 - e) * (2::real) powi (e - 52) = 1"
    by (simp add: power_int_add [symmetric])
  finally have restore: "of_int (n * 2 ^ k) * (2::real) powi (e - 52) = x" by simp
  show ?thesis
    using binary64_normal [OF br e] by (simp only: q roundTiesToEven_of_int restore)
qed

lemma binary64_int: "x \<in> \<int> \<Longrightarrow> \<bar>x\<bar> < 2 ^ 53 \<Longrightarrow> binary64 x = Fin x"
  using binary64_exact [of 0 x] by simp

lemma binary64_0 [simp]: "binary64 0 = Fin 0"
  by (simp add: binary64_def)

lemma binary64_1 [simp]: "binary64 1 = Fin 1"
  by (rule binary64_int) simp_all

lemma binary64_numeral [simp]:
  "\<bar>numeral n :: real\<bar> < 2 ^ 53 \<Longrightarrow> binary64 (numeral n) = Fin (numeral n)"
  by (rule binary64_int) simp_all

text \<open>Overflow: a number of at least \<open>2^1024\<close> is read as \<open>Infinity\<close>.\<close>

lemma binary64_overflow:
  assumes "2 ^ 1024 \<le> x"
  shows "binary64 x = PosInfinity"
proof -
  have pos: "0 < (2::real) powi n" for n by (simp add: zero_less_power_int)
  have x: "0 < x" "x \<noteq> 0" "\<bar>x\<bar> = x" using assms by simp_all
  define e where "e = \<lfloor>log 2 \<bar>x\<bar>\<rfloor>"
  have br: "2 powi e \<le> x" "x < 2 powi (e + 1)"
    using floor_log2_bracket [OF x(2)] by (simp_all add: e_def x(3))
  have "(2::real) powi 1024 \<le> x" using assms by simp
  with br(2) have "(2::real) powi 1024 < 2 powi (e + 1)" by linarith
  then have e: "1024 \<le> e"
    using power_int_increasing [of "e + 1" 1024 "2::real"] by (cases "1024 \<le> e") auto
  define ulp where "ulp = (2::real) powi (e - 52)"
  have ulp: "0 < ulp" by (simp add: ulp_def pos)
  have split: "(2::real) powi e = 2 powi 52 * ulp"
  proof -
    have "(2::real) powi (52 + (e - 52)) = 2 powi 52 * 2 powi (e - 52)"
      by (rule power_int_add) simp
    moreover have "52 + (e - 52) = e" by simp
    ultimately show ?thesis by (simp only: ulp_def)
  qed
  have "2 powi 52 * ulp \<le> x" using br(1) by (simp only: split)
  then have "2 powi 52 \<le> x / ulp" using ulp by (simp add: pos_le_divide_eq)
  then have "real_of_int (2 ^ 52) \<le> x / ulp" by simp
  then have "2 ^ 52 \<le> \<lfloor>x / ulp\<rfloor>" by (simp only: le_floor_iff)
  then have r: "2 ^ 52 \<le> roundTiesToEven (x / ulp)"
    using roundTiesToEven_bounds [of "x / ulp"] by linarith
  then have "real_of_int (2 ^ 52) \<le> real_of_int (roundTiesToEven (x / ulp))"
    by (simp only: of_int_le_iff)
  then have "real_of_int (2 ^ 52) * ulp \<le> real_of_int (roundTiesToEven (x / ulp)) * ulp"
    using ulp by (intro mult_right_mono) simp_all
  moreover have "real_of_int (2 ^ 52) * ulp = 2 powi e" by (simp add: split)
  moreover have "(2::real) powi 1024 \<le> 2 powi e"
    using e by (intro power_int_increasing) simp_all
  ultimately have "2 ^ 1024 \<le> real_of_int (roundTiesToEven (x / ulp)) * ulp" by simp
  moreover from this have "0 \<le> real_of_int (roundTiesToEven (x / ulp)) * ulp"
    by (rule order_trans [rotated]) simp
  ultimately have big: "2 ^ 1024 \<le> \<bar>real_of_int (roundTiesToEven (x / ulp)) * ulp\<bar>"
    by simp
  have "max e (- 1022) = e" using e by simp
  then show ?thesis
    using x big unfolding binary64_def Let_def e_def [symmetric] ulp_def
    by (simp only: if_False if_True)
qed

lemma binary64_overflow_numeral [simp]:
  "2 ^ 1024 \<le> (numeral n :: real) \<Longrightarrow> binary64 (numeral n) = PosInfinity"
  by (rule binary64_overflow)

text \<open>The definitions that evaluate the score functions on an example.\<close>

lemmas eval64 = mkCategory_def mkIndex_def categoryStep64_def categoryScore64_def
  categoryWeight_def categoryWeight64_def calculateClientRiskScore64_def indexStep64_def
  indexValue_def indexValue64_def indexWeight64_def sum64_def spec_risk_score64_def
  spec_category_score64_def indicator_set_with_def indicator_set_of_def
  uniformCategories_def CATEGORIES_def

section \<open>The loops of calculateClientRiskScore as sums\<close>

lemma foldl_indexStep64:
  "foldl (indexStep64 u) (a, b) xs =
     (foldl add64 a (map (\<lambda>i. mul64 (indexValue64 u i) (indexWeight64 u i)) xs),
      foldl add64 b (map (indexWeight64 u) xs))"
  by (induction xs arbitrary: a b) (simp_all add: indexStep64_def)

lemma foldl_categoryStep64:
  "fst (foldl (categoryStep64 u) (a, b, ds) cats) =
     foldl add64 a (map (\<lambda>c. mul64 (fst (categoryScore64 u c)) (categoryWeight64 u c)) cats)
   \<and> fst (snd (foldl (categoryStep64 u) (a, b, ds) cats)) =
     foldl add64 b (map (categoryWeight64 u) cats)"
  by (induction cats arbitrary: a b ds) (simp_all add: categoryStep64_def split: prod.splits)

lemma positive64_nonzero: "positive64 x \<Longrightarrow> x \<noteq> Fin 0"
  by (cases x) simp_all

section \<open>C1: the score as the specification's weighted aggregation\<close>

text \<open>
  C1 (as stated in the specification): the risk score of every valid indicator set is
  \<open>min(100, \<Sigma>(category_score \<times> category_weight) / \<Sigma>(category_weight))\<close> with
  \<open>category_score = \<Sigma>(value \<times> weight) / \<Sigma>(weight)\<close>. Four valid inputs where the code
  returns something else (no operation on them rounds): in user mode
  \<open>calculateClientRiskScore\<close> weighs every index equally, whatever weights the indexes
  declare (50, not 75); in market mode it reads a declared weight of 0 as 1 (25, not 0);
  when all category weights are 0 it returns 0, where the formula is 0/0; and the user
  analysis page's \<open>calculateScore\<close> takes \<open>\<Sigma>(mean \<times> weight / 100)\<close> over the number of
  categories (25 for the uniform set of value 50 and weights 50, not 50).
\<close>

theorem C1_formula_counterexample:
  "fst (calculateClientRiskScore64
         [mkCategory ''valuation'' [mkIndex ''pe-ratio'' 100 3 None,
                                    mkIndex ''revenue-multiple'' 0 1 None] 50 50] True)
     = Fin 50
   \<and> spec_risk_score64 (indicator_set_of True
       [mkCategory ''valuation'' [mkIndex ''pe-ratio'' 100 3 None,
                                  mkIndex ''revenue-multiple'' 0 1 None] 50 50])
     = Fin 75
   \<and> fst (calculateClientRiskScore64
         [mkCategory ''valuation'' [mkIndex ''pe-ratio'' 100 0 None,
                                    mkIndex ''revenue-multiple'' 0 3 None] 50 50] False)
     = Fin 25
   \<and> spec_risk_score64 (indicator_set_of False
       [mkCategory ''valuation'' [mkIndex ''pe-ratio'' 100 0 None,
                                  mkIndex ''revenue-multiple'' 0 3 None] 50 50])
     = Fin 0
   \<and> fst (calculateClientRiskScore64 (uniformCategories 50 10 0) False) = Fin 0
   \<and> spec_risk_score64 (indicator_set_of False (uniformCategories 50 10 0)) = NaN
   \<and> UserAnalysis_calculateScore (uniformCategories 50 10 50) = Some 25
   \<and> spec_risk_score64 (indicator_set_of True (uniformCategories 50 10 50)) = Fin 50"
  by (simp add: eval64 js_div_def userCategoryScore_def UserAnalysis_step_def
        UserAnalysis_calculateScore_def)

text \<open>
  C1 (amended): take a category list in which, in market mode, no declared sub-indicator
  weight is zero, every category has no sub-indicators or a positive summed
  sub-indicator weight, and the summed category weight is positive. Then the value
  \<open>calculateClientRiskScore\<close> returns, clamped at 100, is the specification's
  \<open>min(100, \<Sigma>(category_score \<times> category_weight) / \<Sigma>(category_weight))\<close> with
  \<open>category_score = \<Sigma>(value \<times> weight) / \<Sigma>(weight)\<close> (0 for a category without
  sub-indicators), where the weight of a sub-indicator is its market weight in market
  mode and 1 in user mode, the category weight and the values are those of the mode, and
  every sum is taken from 0 in list order, each operation rounded to a double.
\<close>

theorem C1_formula_amended:
  assumes w0: "\<forall>c\<in>set cats. \<forall>i\<in>set (cat_indexes c). u \<or> binary64 (idx_marketWeight i) \<noteq> Fin 0"
    and subs: "\<forall>c\<in>set cats. cat_indexes c = []
                 \<or> positive64 (sum64 (map (indexWeight64 u) (cat_indexes c)))"
    and tot: "positive64 (sum64 (map (categoryWeight64 u) cats))"
  shows "min100 (fst (calculateClientRiskScore64 cats u)) =
           spec_risk_score64 (indicator_set_with (\<lambda>i. if u then 1 else idx_marketWeight i) u cats)"
proof -
  let ?w = "\<lambda>i. if u then 1 else idx_marketWeight i"
  let ?sub = "\<lambda>c. map (\<lambda>i. (indexValue u i, ?w i)) (cat_indexes c)"
  have weq: "indexWeight64 u i = binary64 (?w i)"
    if "c \<in> set cats" "i \<in> set (cat_indexes c)" for c i
    using w0 that by (auto simp: indexWeight64_def)
  have ws: "map (\<lambda>(v, w). binary64 w) (?sub c) = map (indexWeight64 u) (cat_indexes c)"
    if "c \<in> set cats" for c
    using weq [OF that] by (simp add: comp_def)
  have ps: "map (\<lambda>(v, w). mul64 (binary64 v) (binary64 w)) (?sub c)
              = map (\<lambda>i. mul64 (indexValue64 u i) (indexWeight64 u i)) (cat_indexes c)"
    if "c \<in> set cats" for c
    using weq [OF that] by (simp add: comp_def indexValue64_def)
  have score: "fst (categoryScore64 u c) = spec_category_score64 (?sub c)"
    if c: "c \<in> set cats" for c
  proof (cases "cat_indexes c = []")
    case True
    then show ?thesis
      by (simp add: categoryScore64_def spec_category_score64_def sum64_def)
  next
    case False
    with subs c have pos: "positive64 (sum64 (map (indexWeight64 u) (cat_indexes c)))"
      by blast
    then have "sum64 (map (indexWeight64 u) (cat_indexes c)) \<noteq> Fin 0"
      by (rule positive64_nonzero)
    with pos show ?thesis
      unfolding spec_category_score64_def ws [OF c] ps [OF c]
      by (simp add: categoryScore64_def foldl_indexStep64 sum64_def)
  qed
  have num: "map (\<lambda>(cw, subs). mul64 (spec_category_score64 subs) (binary64 cw))
               (indicator_set_with ?w u cats)
             = map (\<lambda>c. mul64 (fst (categoryScore64 u c)) (categoryWeight64 u c)) cats"
    using score by (simp add: indicator_set_with_def comp_def categoryWeight64_def)
  have den: "map (\<lambda>(cw, subs). binary64 cw) (indicator_set_with ?w u cats)
             = map (categoryWeight64 u) cats"
    by (simp add: indicator_set_with_def comp_def categoryWeight64_def)
  obtain ts tw ds where f: "foldl (categoryStep64 u) (Fin 0, Fin 0, []) cats = (ts, tw, ds)"
    by (cases "foldl (categoryStep64 u) (Fin 0, Fin 0, []) cats") auto
  have ts: "ts = sum64 (map (\<lambda>c. mul64 (fst (categoryScore64 u c)) (categoryWeight64 u c)) cats)"
    and tw: "tw = sum64 (map (categoryWeight64 u) cats)"
    using foldl_categoryStep64 [of u "Fin 0" "Fin 0" "[]" cats] by (simp_all add: f sum64_def)
  have "fst (calculateClientRiskScore64 cats u) = div64 ts tw"
    using tot by (simp add: calculateClientRiskScore64_def f tw)
  then show ?thesis
    by (simp add: spec_risk_score64_def num den ts tw)
qed

text \<open>
  Two instances: a set with different weights, which scores 61, and the uniform set of
  value 150, on which the function returns 150 and the specification's score is 100.
\<close>

theorem C1_formula_witness:
  "fst (calculateClientRiskScore64 weightedExample False) = Fin 61
   \<and> spec_risk_score64 (indicator_set_of False weightedExample) = Fin 61
   \<and> fst (calculateClientRiskScore64 (uniformCategories 150 10 50) False) = Fin 150
   \<and> spec_risk_score64 (indicator_set_of False (uniformCategories 150 10 50)) = Fin 100"
  using C1_formula_amended [of weightedExample False]
        C1_formula_amended [of "uniformCategories 150 10 50" False]
  by (simp add: eval64 weightedExample_def)

section \<open>C3: uniform indicator sets\<close>

text \<open>
  Multiples of 1/1024 of magnitude at most 100, their products, and up to a thousand
  times either, are doubles: sums of them are not rounded.
\<close>

lemma binary64_scaled:
  assumes a: "1024 * a \<in> \<int>" "\<bar>a\<bar> \<le> 100" and b: "1024 * b \<in> \<int>" "\<bar>b\<bar> \<le> 100"
    and k: "k \<le> 1000"
  shows "binary64 (real k * (a * b)) = Fin (real k * (a * b))"
proof (rule binary64_exact [of 20])
  have "(1024 * a) * (1024 * b) \<in> \<int>"
    using a(1) b(1) by (rule Ints_mult)
  then have "real k * ((1024 * a) * (1024 * b)) \<in> \<int>"
    by (rule Ints_mult [OF Ints_of_nat])
  moreover have "2 ^ 20 * (real k * (a * b)) = real k * ((1024 * a) * (1024 * b))"
    by simp
  ultimately show "2 ^ 20 * (real k * (a * b)) \<in> \<int>"
    by (simp only:)
  have "\<bar>a * b\<bar> \<le> 100 * 100"
    unfolding abs_mult using a(2) b(2) by (intro mult_mono) simp_all
  moreover have "real k \<le> 1000" using k by simp
  ultimately have "real k * \<bar>a * b\<bar> \<le> 1000 * (100 * 100)"
    by (intro mult_mono) simp_all
  then show "\<bar>real k * (a * b)\<bar> < 2 ^ 53 / 2 ^ 20"
    by (simp add: abs_mult)
  show "(20::nat) \<le> 1022" by simp
qed

lemma binary64_scaled1:
  assumes "1024 * a \<in> \<int>" "\<bar>a\<bar> \<le> 100" "k \<le> 1000"
  shows "binary64 (real k * a) = Fin (real k * a)"
  using binary64_scaled [of a 1 k] assms by simp

lemma foldl_add64_const:
  assumes "\<forall>y\<in>set ys. y = Fin x"
    and "\<forall>k \<le> n + length ys. binary64 (real k * x) = Fin (real k * x)"
  shows "foldl add64 (Fin (real n * x)) ys = Fin (real (n + length ys) * x)"
  using assms
proof (induction ys arbitrary: n)
  case Nil
  then show ?case by simp
next
  case (Cons y ys)
  have y: "y = Fin x" using Cons.prems(1) by simp
  have eq: "real n * x + x = real (Suc n) * x" by (simp add: algebra_simps)
  have "Suc n \<le> n + length (y # ys)" by simp
  then have "binary64 (real (Suc n) * x) = Fin (real (Suc n) * x)"
    using Cons.prems(2) by blast
  then have "add64 (Fin (real n * x)) y = Fin (real (Suc n) * x)"
    by (simp only: y add64.simps eq)
  moreover have "foldl add64 (Fin (real (Suc n) * x)) ys = Fin (real (Suc n + length ys) * x)"
    using Cons.prems by (intro Cons.IH) simp_all
  ultimately show ?case by simp
qed

lemma sum64_const:
  assumes "\<forall>y\<in>set ys. y = Fin x"
    and "\<forall>k \<le> length ys. binary64 (real k * x) = Fin (real k * x)"
  shows "sum64 ys = Fin (real (length ys) * x)"
  using foldl_add64_const [of ys x 0] assms by (simp add: sum64_def)

lemma categoryScore64_uniform:
  assumes ne: "cat_indexes c \<noteq> []" and len: "length (cat_indexes c) \<le> 1000"
    and vals: "\<forall>i\<in>set (cat_indexes c). indexValue u i = v \<and> indexWeight64 u i = Fin w"
    and v: "1024 * v \<in> \<int>" "0 \<le> v" "v \<le> 100"
    and w: "1024 * w \<in> \<int>" "0 < w" "w \<le> 100"
  shows "fst (categoryScore64 u c) = Fin v"
proof -
  have bv: "binary64 v = Fin v"
    using binary64_scaled1 [of v 1] v by simp
  have iw: "indexWeight64 u i = Fin w" if "i \<in> set (cat_indexes c)" for i
    using vals that by simp
  have iv: "indexValue64 u i = Fin v" if "i \<in> set (cat_indexes c)" for i
    using vals that by (simp add: indexValue64_def bv)
  have bvw: "binary64 (v * w) = Fin (v * w)"
    using binary64_scaled [of v w 1] v w by simp
  let ?n = "length (cat_indexes c)"
  have s: "sum64 (map (\<lambda>i. mul64 (indexValue64 u i) (indexWeight64 u i)) (cat_indexes c))
             = Fin (real ?n * (v * w))"
    using sum64_const [of "map (\<lambda>i. mul64 (indexValue64 u i) (indexWeight64 u i)) (cat_indexes c)"
                          "v * w"]
          binary64_scaled [of v w] v w len
    by (auto simp: iv iw bvw)
  have W: "sum64 (map (indexWeight64 u) (cat_indexes c)) = Fin (real ?n * w)"
    using sum64_const [of "map (indexWeight64 u) (cat_indexes c)" w]
          binary64_scaled1 [of w] w len
    by (auto simp: iw)
  define A where "A = real ?n * (v * w)"
  define B where "B = real ?n * w"
  have n: "0 < real ?n" using ne by simp
  then have pos: "0 < B" using w(2) by (simp add: B_def)
  have q: "A / B = v"
    using n w(2) by (simp add: A_def B_def)
  have "categoryScore64 u c = (div64 (Fin A) (Fin B), [Fin B])"
    using pos s W by (simp add: categoryScore64_def foldl_indexStep64 A_def B_def
                           flip: sum64_def)
  then show ?thesis
    using pos by (simp add: q bv)
qed

text \<open>
  The operations that round on the three examples below (the others are exact), each
  with its binary exponent.
\<close>

lemma rounding_step_1:
  "binary64 (333 / 10)
     = Fin (2343279181116211 / 70368744177664)"
  using binary64_normal [of "5" "333 / 10"]
  by (simp add: roundTiesToEven_def)

lemma rounding_step_2:
  "binary64 (58581979527905275 / 35184372088832)
     = Fin (7322747440988159 / 4398046511104)"
  using binary64_normal [of "10" "58581979527905275 / 35184372088832"]
  by (simp add: roundTiesToEven_def)

lemma rounding_step_3:
  "binary64 (7322747440988159 / 4398046511104)
     = Fin (7322747440988159 / 4398046511104)"
  using binary64_normal [of "10" "7322747440988159 / 4398046511104"]
  by (simp add: roundTiesToEven_def)

lemma rounding_step_4:
  "binary64 (2343279181116211 / 70368744177664)
     = Fin (2343279181116211 / 70368744177664)"
  using binary64_normal [of "5" "2343279181116211 / 70368744177664"]
  by (simp add: roundTiesToEven_def)

lemma rounding_step_5:
  "binary64 (7322747440988159 / 2199023255552)
     = Fin (7322747440988159 / 2199023255552)"
  using binary64_normal [of "11" "7322747440988159 / 2199023255552"]
  by (simp add: roundTiesToEven_def)

lemma rounding_step_6:
  "binary64 (2343279181116211 / 35184372088832)
     = Fin (2343279181116211 / 35184372088832)"
  using binary64_normal [of "6" "2343279181116211 / 35184372088832"]
  by (simp add: roundTiesToEven_def)

lemma rounding_step_7:
  "binary64 (21968242322964477 / 4398046511104)
     = Fin (5492060580741119 / 1099511627776)"
  using binary64_normal [of "12" "21968242322964477 / 4398046511104"]
  by (simp add: roundTiesToEven_def)

lemma rounding_step_8:
  "binary64 (7029837543348633 / 70368744177664)
     = Fin (7029837543348633 / 70368744177664)"
  using binary64_normal [of "6" "7029837543348633 / 70368744177664"]
  by (simp add: roundTiesToEven_def)

lemma rounding_step_9:
  "binary64 (29290989763952635 / 4398046511104)
     = Fin (7322747440988159 / 1099511627776)"
  using binary64_normal [of "12" "29290989763952635 / 4398046511104"]
  by (simp add: roundTiesToEven_def)

lemma rounding_step_10:
  "binary64 (2343279181116211 / 17592186044416)
     = Fin (2343279181116211 / 17592186044416)"
  using binary64_normal [of "7" "2343279181116211 / 17592186044416"]
  by (simp add: roundTiesToEven_def)

lemma rounding_step_11:
  "binary64 (36613737204940795 / 4398046511104)
     = Fin (4576717150617599 / 549755813888)"
  using binary64_normal [of "13" "36613737204940795 / 4398046511104"]
  by (simp add: roundTiesToEven_def)

lemma rounding_step_12:
  "binary64 (11716395905581055 / 70368744177664)
     = Fin (333 / 2)"
  using binary64_normal [of "7" "11716395905581055 / 70368744177664"]
  by (simp add: roundTiesToEven_def)

lemma rounding_step_13:
  "binary64 (4576717150617599 / 91534343012352)
     = Fin (3518437208883199 / 70368744177664)"
  using binary64_normal [of "5" "4576717150617599 / 91534343012352"]
  by (simp add: roundTiesToEven_def)

lemma rounding_step_14:
  "binary64 (58581979527905275 / 17592186044416)
     = Fin (7322747440988159 / 2199023255552)"
  using binary64_normal [of "11" "58581979527905275 / 17592186044416"]
  by (simp add: roundTiesToEven_def)

lemma rounding_step_15:
  "binary64 (7322747440988159 / 1099511627776)
     = Fin (7322747440988159 / 1099511627776)"
  using binary64_normal [of "12" "7322747440988159 / 1099511627776"]
  by (simp add: roundTiesToEven_def)

lemma rounding_step_16:
  "binary64 (21968242322964477 / 2199023255552)
     = Fin (5492060580741119 / 549755813888)"
  using binary64_normal [of "13" "21968242322964477 / 2199023255552"]
  by (simp add: roundTiesToEven_def)

lemma rounding_step_17:
  "binary64 (29290989763952635 / 2199023255552)
     = Fin (7322747440988159 / 549755813888)"
  using binary64_normal [of "13" "29290989763952635 / 2199023255552"]
  by (simp add: roundTiesToEven_def)

lemma rounding_step_18:
  "binary64 (36613737204940795 / 2199023255552)
     = Fin (4576717150617599 / 274877906944)"
  using binary64_normal [of "14" "36613737204940795 / 2199023255552"]
  by (simp add: roundTiesToEven_def)

lemma rounding_step_19:
  "binary64 (4576717150617599 / 45767171506176)
     = Fin (3518437208883199 / 35184372088832)"
  using binary64_normal [of "6" "4576717150617599 / 45767171506176"]
  by (simp add: roundTiesToEven_def)

lemma rounding_step_20:
  "binary64 (3 / 10)
     = Fin (5404319552844595 / 18014398509481984)"
  using binary64_normal [of "-2" "3 / 10"]
  by (simp add: roundTiesToEven_def)

lemma rounding_step_21:
  "binary64 (135107988821114875 / 9007199254740992)
     = Fin (15)"
  using binary64_normal [of "3" "135107988821114875 / 9007199254740992"]
  by (simp add: roundTiesToEven_def)

lemma rounding_step_22:
  "binary64 (5404319552844595 / 18014398509481984)
     = Fin (5404319552844595 / 18014398509481984)"
  using binary64_normal [of "-2" "5404319552844595 / 18014398509481984"]
  by (simp add: roundTiesToEven_def)

lemma rounding_step_23:
  "binary64 (5404319552844595 / 9007199254740992)
     = Fin (5404319552844595 / 9007199254740992)"
  using binary64_normal [of "-1" "5404319552844595 / 9007199254740992"]
  by (simp add: roundTiesToEven_def)

lemma rounding_step_24:
  "binary64 (16212958658533785 / 18014398509481984)
     = Fin (2026619832316723 / 2251799813685248)"
  using binary64_normal [of "-1" "16212958658533785 / 18014398509481984"]
  by (simp add: roundTiesToEven_def)

lemma rounding_step_25:
  "binary64 (101330991615836160 / 2026619832316723)
     = Fin (7036874417766401 / 140737488355328)"
  using binary64_normal [of "5" "101330991615836160 / 2026619832316723"]
  by (simp add: roundTiesToEven_def)

lemma rounding_step_26:
  "binary64 (175921860444160025 / 70368744177664)
     = Fin (5497558138880001 / 2199023255552)"
  using binary64_normal [of "11" "175921860444160025 / 70368744177664"]
  by (simp add: roundTiesToEven_def)

lemma rounding_step_27:
  "binary64 (5497558138880001 / 2199023255552)
     = Fin (5497558138880001 / 2199023255552)"
  using binary64_normal [of "11" "5497558138880001 / 2199023255552"]
  by (simp add: roundTiesToEven_def)

lemma rounding_step_28:
  "binary64 (5497558138880001 / 109951162777600)
     = Fin (7036874417766401 / 140737488355328)"
  using binary64_normal [of "5" "5497558138880001 / 109951162777600"]
  by (simp add: roundTiesToEven_def)

lemmas rounding_steps =
  rounding_step_1 rounding_step_2 rounding_step_3 rounding_step_4 rounding_step_5
  rounding_step_6 rounding_step_7 rounding_step_8 rounding_step_9 rounding_step_10
  rounding_step_11 rounding_step_12 rounding_step_13 rounding_step_14 rounding_step_15
  rounding_step_16 rounding_step_17 rounding_step_18 rounding_step_19 rounding_step_20
  rounding_step_21 rounding_step_22 rounding_step_23 rounding_step_24 rounding_step_25
  rounding_step_26 rounding_step_27 rounding_step_28

text \<open>
  C3 (as stated in the specification): uniform value 50 with uniform sub-indicator
  weights and equal category weights gives exactly 50.0 and MEDIUM, all values 100 give
  100.0 and HIGH. The user analysis page's \<open>calculateScore\<close> scales each category by
  \<open>userWeight / 100\<close> and divides by the number of categories: with the default weight 50
  the uniform set of value 50 scores 25 (LOW) and the one of value 100 scores 50
  (MEDIUM). When the equal category weights are all 0, \<open>calculateClientRiskScore\<close>
  returns 0 for the uniform set of value 50. And its sums round: on the five categories
  with all sub-indicator weights 10 and all category weights 33.3 it returns
  49.999999999999986 for the uniform value 50 and 99.99999999999997 for the uniform value
  100, and on one category of three sub-indicators of value 50 and weight 0.3 it returns
  50.00000000000001.
\<close>

theorem C3_uniform_counterexample:
  "UserAnalysis_calculateScore (uniformCategories 50 10 50) = Some 25
   \<and> getRiskLevel 25 = LOW
   \<and> UserAnalysis_calculateScore (uniformCategories 100 10 50) = Some 50
   \<and> getRiskLevel 50 = MEDIUM
   \<and> fst (calculateClientRiskScore64 (uniformCategories 50 10 0) False) = Fin 0
   \<and> fst (calculateClientRiskScore64 (uniformCategories 50 10 (333 / 10)) False)
       = Fin (3518437208883199 / 70368744177664)
   \<and> fst (calculateClientRiskScore64 (uniformCategories 100 10 (333 / 10)) False)
       = Fin (3518437208883199 / 35184372088832)
   \<and> fst (calculateClientRiskScore64
            [mkCategory ''valuation'' (replicate 3 (mkIndex ''pe-ratio'' 50 (3 / 10) None)) 50 50]
            False)
       = Fin (7036874417766401 / 140737488355328)"
  by (simp add: eval64 rounding_steps numeral_3_eq_3 js_div_def userCategoryScore_def
        UserAnalysis_step_def UserAnalysis_calculateScore_def getRiskLevel_def)

text \<open>
  C3 (amended): take at most a thousand categories, at least one, each with at least one
  and at most a thousand sub-indicators, in which every (effective) value is \<open>v\<close>, the
  sub-indicator weights are uniform within each category and positive, and all category
  weights are equal and positive; let \<open>v\<close> and the weights be multiples of 1/1024
  between 0 and 100 (in user mode the sub-indicator weights are not read, and may be
  anything). Then \<open>calculateClientRiskScore\<close> returns exactly \<open>v\<close>; and \<open>getRiskLevel\<close>
  maps 50 to MEDIUM, 0 to LOW and 100 to HIGH.
\<close>

theorem C3_uniform_amended:
  assumes "cats \<noteq> []" and "length cats \<le> 1000"
    and "\<forall>c\<in>set cats. cat_indexes c \<noteq> [] \<and> length (cat_indexes c) \<le> 1000
           \<and> categoryWeight u c = cw
           \<and> (\<forall>i\<in>set (cat_indexes c). indexValue u i = v \<and> (u \<or> idx_marketWeight i = w c))"
    and "1024 * v \<in> \<int>" "0 \<le> v" "v \<le> 100"
    and "1024 * cw \<in> \<int>" "0 < cw" "cw \<le> 100"
    and "\<forall>c\<in>set cats. u \<or> (1024 * w c \<in> \<int> \<and> 0 < w c \<and> w c \<le> 100)"
  shows "fst (calculateClientRiskScore64 cats u) = Fin v
         \<and> getRiskLevel 50 = MEDIUM \<and> getRiskLevel 0 = LOW \<and> getRiskLevel 100 = HIGH"
proof -
  have score: "fst (categoryScore64 u c) = Fin v" if c: "c \<in> set cats" for c
  proof (cases u)
    case True
    have "\<forall>i\<in>set (cat_indexes c). indexValue u i = v \<and> indexWeight64 u i = Fin 1"
      using assms(3) c True by (simp add: indexWeight64_def)
    then show ?thesis
      using assms c by (intro categoryScore64_uniform [where w = 1]) simp_all
  next
    case False
    with assms(10) c have w: "1024 * w c \<in> \<int>" "0 < w c" "w c \<le> 100"
      by blast+
    then have "binary64 (w c) = Fin (w c)"
      using binary64_scaled1 [of "w c" 1] by simp
    then have "\<forall>i\<in>set (cat_indexes c). indexValue u i = v \<and> indexWeight64 u i = Fin (w c)"
      using assms(3) c False w(2) by (simp add: indexWeight64_def)
    then show ?thesis
      using assms c w by (intro categoryScore64_uniform [where w = "w c"]) simp_all
  qed
  have bcw: "binary64 cw = Fin cw"
    using binary64_scaled1 [of cw 1] assms by simp
  have bv: "binary64 v = Fin v"
    using binary64_scaled1 [of v 1] assms by simp
  have cw: "categoryWeight64 u c = Fin cw" if "c \<in> set cats" for c
    using assms(3) that by (simp add: categoryWeight64_def bcw)
  have bvcw: "binary64 (v * cw) = Fin (v * cw)"
    using binary64_scaled [of v cw 1] assms by simp
  let ?n = "length cats"
  obtain ts tw ds where f: "foldl (categoryStep64 u) (Fin 0, Fin 0, []) cats = (ts, tw, ds)"
    by (cases "foldl (categoryStep64 u) (Fin 0, Fin 0, []) cats") auto
  have "ts = sum64 (map (\<lambda>c. mul64 (fst (categoryScore64 u c)) (categoryWeight64 u c)) cats)"
    using foldl_categoryStep64 [of u "Fin 0" "Fin 0" "[]" cats] by (simp add: f sum64_def)
  moreover have "\<dots> = Fin (real ?n * (v * cw))"
    using sum64_const [of "map (\<lambda>c. mul64 (fst (categoryScore64 u c)) (categoryWeight64 u c)) cats"
                          "v * cw"]
          binary64_scaled [of v cw] assms(2,4-9)
    by (auto simp: score cw bvcw)
  ultimately have ts: "ts = Fin (real ?n * (v * cw))" by simp
  have "tw = sum64 (map (categoryWeight64 u) cats)"
    using foldl_categoryStep64 [of u "Fin 0" "Fin 0" "[]" cats] by (simp add: f sum64_def)
  moreover have "\<dots> = Fin (real ?n * cw)"
    using sum64_const [of "map (categoryWeight64 u) cats" cw]
          binary64_scaled1 [of cw] assms(2,4-9)
    by (auto simp: cw)
  ultimately have tw: "tw = Fin (real ?n * cw)" by simp
  define A where "A = real ?n * (v * cw)"
  define B where "B = real ?n * cw"
  have n: "0 < real ?n" using assms(1) by simp
  then have pos: "0 < B" using assms(8) by (simp add: B_def)
  have q: "A / B = v"
    using n assms(8) by (simp add: A_def B_def)
  have "fst (calculateClientRiskScore64 cats u) = div64 (Fin A) (Fin B)"
    using pos by (simp add: calculateClientRiskScore64_def f ts tw A_def B_def)
  then have "fst (calculateClientRiskScore64 cats u) = Fin v"
    using pos by (simp add: q bv)
  then show ?thesis
    by (simp add: getRiskLevel_def)
qed

text \<open>
  The five categories with the sub-indicator weight 12.5 and the category weight 50, in
  market mode, for the values 50, 0 and 100.
\<close>

theorem C3_uniform_witness:
  "fst (calculateClientRiskScore64 (uniformCategories 50 (25 / 2) 50) False) = Fin 50
   \<and> fst (calculateClientRiskScore64 (uniformCategories 0 (25 / 2) 50) False) = Fin 0
   \<and> fst (calculateClientRiskScore64 (uniformCategories 100 (25 / 2) 50) False) = Fin 100
   \<and> getRiskLevel 50 = MEDIUM \<and> getRiskLevel 0 = LOW \<and> getRiskLevel 100 = HIGH"
  using C3_uniform_amended [of "uniformCategories 50 (25 / 2) 50" False 50 50 "\<lambda>c. 25 / 2"]
        C3_uniform_amended [of "uniformCategories 0 (25 / 2) 50" False 50 0 "\<lambda>c. 25 / 2"]
        C3_uniform_amended [of "uniformCategories 100 (25 / 2) 50" False 50 100 "\<lambda>c. 25 / 2"]
  by (simp add: uniformCategories_def CATEGORIES_def mkCategory_def mkIndex_def
        indexValue_def categoryWeight_def)

section \<open>C4: the ceiling of 100\<close>

text \<open>The page-level scores are clamped by \<open>Math.min(100, \<dots>)\<close>.\<close>

lemma MarketConsensus_calculateScore_le:
  "MarketConsensus_calculateScore cats = Some s \<Longrightarrow> s \<le> 100"
  by (auto simp: MarketConsensus_calculateScore_def js_div_def
           split: prod.splits if_splits option.splits)

lemma UserAnalysis_calculateScore_le:
  "UserAnalysis_calculateScore cats = Some s \<Longrightarrow> s \<le> 100"
  by (auto simp: UserAnalysis_calculateScore_def js_div_def split: if_splits option.splits)

text \<open>
  C4: an indicator set whose aggregation exceeds 100 is reported as exactly 100. On the
  five categories with every value 150 the market page's \<open>calculateScore\<close> reports 100,
  but \<open>calculateClientRiskScore\<close>, which has no \<open>Math.min\<close>, reports 150.
\<close>

theorem C4_client_score_unclamped:
  "calculateClientRiskScore (uniformCategories 150 10 50) False = Some 150
   \<and> MarketConsensus_calculateScore (uniformCategories 150 10 50) = Some 100"
  by (simp add: js_div_def indexValue_def indexWeight_def indexStep_def categoryScore_def
        categoryWeight_def categoryStep_def calculateClientRiskScore_def mkIndex_def
        mkCategory_def marketCategoryScore_def MarketConsensus_step_def
        MarketConsensus_calculateScore_def CATEGORIES_def uniformCategories_def)

section \<open>C5: categories of zero total weight\<close>

lemma add64_zero_right: "double64 x \<Longrightarrow> add64 x (Fin 0) = x"
  by (cases x) (simp_all add: double64_def)

lemma mul64_zero_left: "finite64 x \<Longrightarrow> mul64 (Fin 0) x = Fin 0"
  by (cases x) (simp_all add: finite64_def)

text \<open>Every division is guarded: a divisor is recorded only where it is positive.\<close>

lemma categoryStep64_divisors:
  "set (snd (snd (categoryStep64 u (ts, tw, ds) c))) \<subseteq> set ds \<union> {d. positive64 d}"
  by (auto simp: categoryStep64_def categoryScore64_def split: prod.splits if_splits)

lemma foldl_categoryStep64_divisors:
  "\<forall>d\<in>set (snd (snd acc)). positive64 d \<Longrightarrow>
   \<forall>d\<in>set (snd (snd (foldl (categoryStep64 u) acc cats))). positive64 d"
proof (induction cats arbitrary: acc)
  case Nil
  then show ?case by simp
next
  case (Cons c cats)
  obtain ts tw ds where acc: "acc = (ts, tw, ds)" by (cases acc) auto
  have "\<forall>d\<in>set (snd (snd (categoryStep64 u acc c))). positive64 d"
    using categoryStep64_divisors [of u ts tw ds c] Cons.prems by (auto simp: acc)
  then show ?case
    using Cons.IH by simp
qed

lemma calculateClientRiskScore64_divisors:
  "\<forall>d\<in>set (snd (calculateClientRiskScore64 cats u)). positive64 d"
  using foldl_categoryStep64_divisors [of "(Fin 0, Fin 0, [])" u cats]
  by (auto simp: calculateClientRiskScore64_def split: prod.splits if_splits)

text \<open>
  C5 (as stated in the specification): a category whose total sub-indicator weight is
  zero gets the category score 0, contributes nothing, and nothing is divided by zero. A
  category whose only index has value 80 and declared weight 0 scores 80 in both modes:
  user mode gives every index the weight 1, and market mode reads the weight 0 as 1. The
  specification's rule gives 0. A category without sub-indicators whose category weight
  is too large for a double (it is read as \<open>Infinity\<close>) turns the score into \<open>NaN\<close>. And
  the market page's \<open>calculateScore\<close> divides 0 by 0, the number of indexes, for a
  category without sub-indicators: its score is \<open>NaN\<close>.
\<close>

theorem C5_zero_weight_counterexample:
  "fst (categoryScore64 True (mkCategory ''valuation'' [mkIndex ''pe-ratio'' 80 0 None] 50 50))
     = Fin 80
   \<and> fst (categoryScore64 False (mkCategory ''valuation'' [mkIndex ''pe-ratio'' 80 0 None] 50 50))
     = Fin 80
   \<and> fst (calculateClientRiskScore64
            [mkCategory ''valuation'' [mkIndex ''pe-ratio'' 80 0 None] 50 50] True)
     = Fin 80
   \<and> spec_category_score64 [(80, 0)] = Fin 0
   \<and> fst (calculateClientRiskScore64
            [mkCategory ''valuation'' [mkIndex ''pe-ratio'' 80 10 None] 50 50,
             mkCategory ''macro'' [] (2 ^ 1024) (2 ^ 1024)] False)
     = NaN
   \<and> MarketConsensus_calculateScore [mkCategory ''macro'' [] 50 50] = None"
  by (simp add: eval64 js_div_def marketCategoryScore_def MarketConsensus_step_def
        MarketConsensus_calculateScore_def)

text \<open>
  C5 (amended): for every category without sub-indicators, the category score that
  \<open>calculateClientRiskScore\<close> computes is 0, without a division, and, when the category
  weight is finite, the category leaves the total score as it is. And every division of
  the function is guarded: on every category list and in both modes each divisor is
  positive, so none is zero.
\<close>

theorem C5_zero_weight_amended:
  assumes "cat_indexes c = []"
  shows "categoryScore64 u c = (Fin 0, [])
         \<and> (double64 ts \<and> finite64 (categoryWeight64 u c) \<longrightarrow>
              fst (categoryStep64 u (ts, tw, ds) c) = ts)
         \<and> (\<forall>d\<in>set (snd (calculateClientRiskScore64 cats u)). positive64 d \<and> d \<noteq> Fin 0)"
proof -
  from assms have "categoryScore64 u c = (Fin 0, [])"
    by (simp add: categoryScore64_def)
  then show ?thesis
    using calculateClientRiskScore64_divisors [of cats u] positive64_nonzero
    by (auto simp: categoryStep64_def add64_zero_right mul64_zero_left)
qed

text \<open>
  An empty category after one of score 80, with equal weights: the total stays what it
  was, the score is 40, and the two divisions are by 10 and by 100.
\<close>

theorem C5_zero_weight_witness:
  "categoryScore64 False (mkCategory ''macro'' [] 50 50) = (Fin 0, [])
   \<and> fst (categoryStep64 False (Fin 4000, Fin 50, [Fin 10]) (mkCategory ''macro'' [] 50 50))
       = Fin 4000
   \<and> calculateClientRiskScore64
         [mkCategory ''valuation'' [mkIndex ''pe-ratio'' 80 10 None] 50 50,
          mkCategory ''macro'' [] 50 50] False = (Fin 40, [Fin 10, Fin 100])
   \<and> positive64 (Fin 10) \<and> positive64 (Fin 100)"
  using C5_zero_weight_amended
          [of "mkCategory ''macro'' [] 50 50" False "Fin 4000" "Fin 50" "[Fin 10]"
              "[mkCategory ''valuation'' [mkIndex ''pe-ratio'' 80 10 None] 50 50,
                mkCategory ''macro'' [] 50 50]"]
  by (simp add: eval64 double64_def finite64_def)

section \<open>What categoriesToMetrics fails on\<close>

lemma find_append_option:
  "find P (xs @ ys) = (case find P xs of Some x \<Rightarrow> Some x | None \<Rightarrow> find P ys)"
  by (induction xs) simp_all

lemma find_map_option: "find P (map f xs) = map_option f (find (\<lambda>x. P (f x)) xs)"
  by (induction xs) simp_all

lemma errorOf_simps [simp]: "errorOf (Inl e) = Some e" "errorOf (Inr a) = None"
  by (simp_all add: errorOf_def)

lemma errorOf_None: "errorOf r = None \<Longrightarrow> \<exists>a. r = Inr a"
  by (cases r) simp_all

lemma bindE_simps [simp]: "bindE (Inl e) f = Inl e" "bindE (Inr a) f = f a"
  by (simp_all add: bindE_def)

lemma metric_cases:
  "metric u c i =
     (if i \<in> set (map idx_id (cat_indexes c))
      then Inr (getValue u (the (find (\<lambda>index. idx_id index = i) (cat_indexes c))))
      else Inl (notFound (cat_id c) i))"
proof (cases "find (\<lambda>index. idx_id index = i) (cat_indexes c)")
  case None
  then have "i \<notin> set (map idx_id (cat_indexes c))"
    by (auto simp: find_None_iff)
  with None show ?thesis
    by (simp add: metric_def findIndex_def notFound_def)
next
  case (Some x)
  then have "i \<in> set (map idx_id (cat_indexes c))"
    by (auto simp: find_Some_iff)
  with Some show ?thesis
    by (simp add: metric_def findIndex_def)
qed

lemma valuationMetrics_error:
  "errorOf (valuationMetrics u c) =
     blockError c [''pe-ratio'', ''revenue-multiple'', ''market-cap'', ''growth-premium'']"
  by (simp add: valuationMetrics_def metric_cases blockError_def)

lemma sentimentMetrics_error:
  "errorOf (sentimentMetrics u c) =
     blockError c [''media-mentions'', ''social-sentiment'', ''search-trends'',
                   ''analyst-ratings'', ''ipo-activity'']"
  by (simp add: sentimentMetrics_def metric_cases blockError_def)

lemma positioningMetrics_error:
  "errorOf (positioningMetrics u c) =
     blockError c [''fund-flows'', ''institutional'', ''retail-interest'', ''options-volume'']"
  by (simp add: positioningMetrics_def metric_cases blockError_def)

lemma macroMetrics_error:
  "errorOf (macroMetrics u c) =
     blockError c [''interest-rates'', ''liquidity'', ''vix'', ''put-call'']"
  by (simp add: macroMetrics_def metric_cases blockError_def)

lemma fundamentalsMetrics_error:
  "errorOf (fundamentalsMetrics u c) =
     blockError c [''revenue-growth'', ''profit-margins'', ''capex-cycle'',
                   ''adoption-rate'', ''competition'']"
  by (simp add: fundamentalsMetrics_def metric_cases blockError_def)

lemma errorOf_bindE:
  "errorOf (bindE r f) =
     (case errorOf r of Some e \<Rightarrow> Some e | None \<Rightarrow> errorOf (f (projr r)))"
  by (cases r) simp_all


lemma findCategory_ids:
  "find (\<lambda>entry. fst entry = i) (idsOf cats) =
     map_option (\<lambda>c. (cat_id c, map idx_id (cat_indexes c))) (findCategory cats i)"
  by (simp add: idsOf_def findCategory_def find_map_option)

lemma findCategory_Some_id: "findCategory cats i = Some c \<Longrightarrow> cat_id c = i \<and> c \<in> set cats"
  by (auto simp: findCategory_def find_Some_iff)

lemma findCategory_None_iff: "findCategory cats i = None \<longleftrightarrow> i \<notin> set (map fst (idsOf cats))"
  by (auto simp: findCategory_def find_None_iff idsOf_def)

lemma missingCategory_iff:
  "missingCategory (idsOf cats) \<longleftrightarrow>
     findCategory cats ''valuation'' = None \<or> findCategory cats ''sentiment'' = None
     \<or> findCategory cats ''positioning'' = None \<or> findCategory cats ''macro'' = None
     \<or> findCategory cats ''fundamentals'' = None"
  by (simp add: missingCategory_def requiredIndexes_def findCategory_None_iff)

lemma missingIndex_found:
  "findCategory cats c = Some cat \<Longrightarrow>
     missingIndex (idsOf cats) (c, i) = (i \<notin> set (map idx_id (cat_indexes cat)))"
  by (simp add: missingIndex_def findCategory_ids)

lemma block_find:
  assumes "findCategory cats c = Some cat"
  shows "find (missingIndex (idsOf cats)) (map (Pair c) is) =
           map_option (Pair c) (find (\<lambda>i. i \<notin> set (map idx_id (cat_indexes cat))) is)"
  using assms by (simp add: find_map_option missingIndex_found)

lemma requiredFields_blocks:
  "requiredFields =
     map (Pair ''valuation'') [''pe-ratio'', ''revenue-multiple'', ''market-cap'', ''growth-premium'']
     @ map (Pair ''sentiment'') [''media-mentions'', ''social-sentiment'', ''search-trends'',
                                ''analyst-ratings'', ''ipo-activity'']
     @ map (Pair ''positioning'') [''fund-flows'', ''institutional'', ''retail-interest'',
                                  ''options-volume'']
     @ map (Pair ''macro'') [''interest-rates'', ''liquidity'', ''vix'', ''put-call'']
     @ map (Pair ''fundamentals'') [''revenue-growth'', ''profit-margins'', ''capex-cycle'',
                                   ''adoption-rate'', ''competition'']"
  by (simp add: requiredFields_def requiredIndexes_def)

lemma notFound_block:
  "cat_id cat = c \<Longrightarrow>
     map_option (\<lambda>(c, i). notFound c i) (map_option (Pair c) r) = map_option (notFound (cat_id cat)) r"
  by (cases r) simp_all

lemma categoriesToMetrics_error:
  "errorOf (categoriesToMetrics cats u) = expectedError (idsOf cats)"
proof (cases "missingCategory (idsOf cats)")
  case True
  then have "categoriesToMetrics cats u = Inl (Error ''Missing required categories'')"
    unfolding missingCategory_iff categoriesToMetrics_def
    by (auto split: option.splits)
  with True show ?thesis
    by (simp add: expectedError_def)
next
  case False
  then obtain c1 c2 c3 c4 c5 where found:
    "findCategory cats ''valuation'' = Some c1" "findCategory cats ''sentiment'' = Some c2"
    "findCategory cats ''positioning'' = Some c3" "findCategory cats ''macro'' = Some c4"
    "findCategory cats ''fundamentals'' = Some c5"
    unfolding missingCategory_iff by auto
  note ids = found [THEN findCategory_Some_id, THEN conjunct1]
  have lhs: "errorOf (categoriesToMetrics cats u) =
      (case blockError c1 [''pe-ratio'', ''revenue-multiple'', ''market-cap'', ''growth-premium''] of
         Some e \<Rightarrow> Some e
       | None \<Rightarrow>
      (case blockError c2 [''media-mentions'', ''social-sentiment'', ''search-trends'',
                           ''analyst-ratings'', ''ipo-activity''] of
         Some e \<Rightarrow> Some e
       | None \<Rightarrow>
      (case blockError c3 [''fund-flows'', ''institutional'', ''retail-interest'',
                           ''options-volume''] of
         Some e \<Rightarrow> Some e
       | None \<Rightarrow>
      (case blockError c4 [''interest-rates'', ''liquidity'', ''vix'', ''put-call''] of
         Some e \<Rightarrow> Some e
       | None \<Rightarrow>
         blockError c5 [''revenue-growth'', ''profit-margins'', ''capex-cycle'',
                        ''adoption-rate'', ''competition'']))))"
    by (simp add: categoriesToMetrics_def found errorOf_bindE valuationMetrics_error
          sentimentMetrics_error positioningMetrics_error macroMetrics_error
          fundamentalsMetrics_error split: option.splits)
  have rhs: "expectedError (idsOf cats) = \<dots>"
    using False
    unfolding expectedError_def firstMissingIndex_def requiredFields_blocks blockError_def
    by (simp only: if_False find_append_option block_find [OF found(1)] block_find [OF found(2)]
          block_find [OF found(3)] block_find [OF found(4)] block_find [OF found(5)])
       (simp add: notFound_block ids split: option.splits)
  show ?thesis
    by (simp only: lhs rhs)
qed

lemma errorOf_Some: "errorOf r = Some e \<Longrightarrow> r = Inl e"
  by (cases r) simp_all

lemma bindE_Inr: "bindE r f = Inr b \<longleftrightarrow> (\<exists>a. r = Inr a \<and> f a = Inr b)"
  by (cases r) simp_all

lemma metric_Inr: "metric u c i = Inr v \<Longrightarrow> v \<in> getValue u ` set (cat_indexes c)"
  by (auto simp: metric_def findIndex_def find_Some_iff split: option.splits)

lemma valuationMetrics_values:
  "valuationMetrics u c = Inr m \<Longrightarrow>
     {pe_ratio m, revenue_multiple m, market_cap_gdp m, growth_premium m}
       \<subseteq> getValue u ` set (cat_indexes c)"
  by (auto simp: valuationMetrics_def bindE_Inr dest: metric_Inr)

lemma sentimentMetrics_values:
  "sentimentMetrics u c = Inr m \<Longrightarrow>
     {media_mentions m, social_sentiment m, search_trends m, analyst_ratings m, ipo_activity m}
       \<subseteq> getValue u ` set (cat_indexes c)"
  by (auto simp: sentimentMetrics_def bindE_Inr dest: metric_Inr)

lemma positioningMetrics_values:
  "positioningMetrics u c = Inr m \<Longrightarrow>
     {fund_flows m, institutional_holdings m, retail_interest m, options_volume m}
       \<subseteq> getValue u ` set (cat_indexes c)"
  by (auto simp: positioningMetrics_def bindE_Inr dest: metric_Inr)

lemma macroMetrics_values:
  "macroMetrics u c = Inr m \<Longrightarrow>
     {interest_rates m, liquidity m, vix m, put_call_ratio m}
       \<subseteq> getValue u ` set (cat_indexes c)"
  by (auto simp: macroMetrics_def bindE_Inr dest: metric_Inr)

lemma fundamentalsMetrics_values:
  "fundamentalsMetrics u c = Inr m \<Longrightarrow>
     {revenue_growth m, profit_margins m, capex_cycle m, adoption_rate m, competition m}
       \<subseteq> getValue u ` set (cat_indexes c)"
  by (auto simp: fundamentalsMetrics_def bindE_Inr dest: metric_Inr)

lemma categoriesToMetrics_values:
  assumes "categoriesToMetrics cats u = Inr m"
  shows "set (metricValues m) \<subseteq> getValue u ` (\<Union>c\<in>set cats. set (cat_indexes c))"
proof -
  from assms obtain c1 c2 c3 c4 c5 where found:
    "findCategory cats ''valuation'' = Some c1" "findCategory cats ''sentiment'' = Some c2"
    "findCategory cats ''positioning'' = Some c3" "findCategory cats ''macro'' = Some c4"
    "findCategory cats ''fundamentals'' = Some c5"
    by (auto simp: categoriesToMetrics_def split: option.splits)
  note mem = found [THEN findCategory_Some_id, THEN conjunct2]
  from assms found have blocks:
    "valuationMetrics u c1 = Inr (category_1_valuation m)"
    "sentimentMetrics u c2 = Inr (category_2_sentiment m)"
    "positioningMetrics u c3 = Inr (category_3_positioning m)"
    "macroMetrics u c4 = Inr (category_4_macro m)"
    "fundamentalsMetrics u c5 = Inr (category_5_fundamentals m)"
    by (auto simp: categoriesToMetrics_def bindE_Inr)
  have part: "A \<subseteq> getValue u ` set (cat_indexes c) \<Longrightarrow> c \<in> set cats \<Longrightarrow>
        A \<subseteq> getValue u ` (\<Union>c\<in>set cats. set (cat_indexes c))" for A c
    by blast
  have
    "{pe_ratio (category_1_valuation m), revenue_multiple (category_1_valuation m),
      market_cap_gdp (category_1_valuation m), growth_premium (category_1_valuation m)}
       \<subseteq> getValue u ` (\<Union>c\<in>set cats. set (cat_indexes c))"
    "{media_mentions (category_2_sentiment m), social_sentiment (category_2_sentiment m),
      search_trends (category_2_sentiment m), analyst_ratings (category_2_sentiment m),
      ipo_activity (category_2_sentiment m)}
       \<subseteq> getValue u ` (\<Union>c\<in>set cats. set (cat_indexes c))"
    "{fund_flows (category_3_positioning m), institutional_holdings (category_3_positioning m),
      retail_interest (category_3_positioning m), options_volume (category_3_positioning m)}
       \<subseteq> getValue u ` (\<Union>c\<in>set cats. set (cat_indexes c))"
    "{interest_rates (category_4_macro m), liquidity (category_4_macro m),
      vix (category_4_macro m), put_call_ratio (category_4_macro m)}
       \<subseteq> getValue u ` (\<Union>c\<in>set cats. set (cat_indexes c))"
    "{revenue_growth (category_5_fundamentals m), profit_margins (category_5_fundamentals m),
      capex_cycle (category_5_fundamentals m), adoption_rate (category_5_fundamentals m),
      competition (category_5_fundamentals m)}
       \<subseteq> getValue u ` (\<Union>c\<in>set cats. set (cat_indexes c))"
    using part [OF valuationMetrics_values [OF blocks(1)] mem(1)]
          part [OF sentimentMetrics_values [OF blocks(2)] mem(2)]
          part [OF positioningMetrics_values [OF blocks(3)] mem(3)]
          part [OF macroMetrics_values [OF blocks(4)] mem(4)]
          part [OF fundamentalsMetrics_values [OF blocks(5)] mem(5)]
    by blast+
  then show ?thesis
    unfolding metricValues_def by simp
qed

section \<open>C6: values and weights outside the range\<close>

text \<open>
  C6 (as stated in the specification): a payload with a value or a weight outside
  [0, 100] fails validation. With every value 150, every sub-indicator weight -5 and every
  category weight 500, \<open>categoriesToMetrics\<close> succeeds and returns the values as they
  are.
\<close>

theorem C6_out_of_range_counterexample:
  "categoriesToMetrics (uniformCategories 150 (- 5) 500) False = Inr (uniformMetrics 150)"
  by (simp add: categoriesToMetrics_def findCategory_def valuationMetrics_def
        sentimentMetrics_def positioningMetrics_def macroMetrics_def fundamentalsMetrics_def
        metric_def findIndex_def getValue_def uniformCategories_def CATEGORIES_def
        mkCategory_def mkIndex_def uniformMetrics_def)

text \<open>
  C6 (amended): \<open>categoriesToMetrics\<close> checks no range. Whether it fails, and with which
  error, is decided by the category and index ids of the payload alone, whatever the
  values and weights (and the mode); and when it succeeds, every number it returns is one
  of the supplied values, unchanged.
\<close>

theorem C6_out_of_range_amended:
  "(idsOf cats = idsOf cats' \<longrightarrow>
      errorOf (categoriesToMetrics cats u) = errorOf (categoriesToMetrics cats' u'))
   \<and> (categoriesToMetrics cats u = Inr m \<longrightarrow>
        set (metricValues m) \<subseteq> getValue u ` (\<Union>c\<in>set cats. set (cat_indexes c)))"
  by (simp add: categoriesToMetrics_error categoriesToMetrics_values)

theorem C6_out_of_range_witness:
  "errorOf (categoriesToMetrics (uniformCategories 150 (- 5) 500) False)
     = errorOf (categoriesToMetrics CATEGORIES True)
   \<and> set (metricValues (uniformMetrics 150))
       \<subseteq> getValue False ` (\<Union>c\<in>set (uniformCategories 150 (- 5) 500). set (cat_indexes c))"
proof -
  have ids: "idsOf (uniformCategories 150 (- 5) 500) = idsOf CATEGORIES"
    by (simp add: idsOf_def uniformCategories_def CATEGORIES_def mkCategory_def mkIndex_def)
  have ok: "categoriesToMetrics (uniformCategories 150 (- 5) 500) False = Inr (uniformMetrics 150)"
    by (simp add: categoriesToMetrics_def findCategory_def valuationMetrics_def
        sentimentMetrics_def positioningMetrics_def macroMetrics_def fundamentalsMetrics_def
        metric_def findIndex_def getValue_def uniformCategories_def CATEGORIES_def
        mkCategory_def mkIndex_def uniformMetrics_def)
  show ?thesis
    using C6_out_of_range_amended
            [of "uniformCategories 150 (- 5) 500" CATEGORIES False True "uniformMetrics 150"]
          ids ok
    by blast
qed

section \<open>C7: missing categories and sub-indicators\<close>

text \<open>
  C7 (as stated in the specification): a payload missing a category fails with an error
  that names the first offending field. Without its last category, fundamentals, the
  payload fails with the fixed message, which names no category.
\<close>

theorem C7_missing_counterexample:
  "categoriesToMetrics (butlast CATEGORIES) False = Inl (Error ''Missing required categories'')"
  by (simp add: categoriesToMetrics_def findCategory_def CATEGORIES_def mkCategory_def
        mkIndex_def)

text \<open>
  C7 (amended): a payload missing one of the five categories fails with the error
  ``Missing required categories'', which does not say which; a payload with all five
  categories in which a named sub-indicator is missing fails with the error
  ``Index i not found in category c'' for the first missing field (c, i) in the order of
  the result's fields; no missing entry is defaulted, and a payload missing nothing
  succeeds.
\<close>

theorem C7_missing_amended:
  "(missingCategory (idsOf cats) \<longrightarrow>
      categoriesToMetrics cats u = Inl (Error ''Missing required categories''))
   \<and> (\<not> missingCategory (idsOf cats) \<and> firstMissingIndex (idsOf cats) = Some (c, i) \<longrightarrow>
        categoriesToMetrics cats u
          = Inl (Error (''Index '' @ i @ '' not found in category '' @ c)))
   \<and> (\<not> missingCategory (idsOf cats) \<and> firstMissingIndex (idsOf cats) = None \<longrightarrow>
        (\<exists>m. categoriesToMetrics cats u = Inr m))"
proof (intro conjI impI)
  assume "missingCategory (idsOf cats)"
  then have "errorOf (categoriesToMetrics cats u) = Some (Error ''Missing required categories'')"
    by (simp add: categoriesToMetrics_error expectedError_def)
  then show "categoriesToMetrics cats u = Inl (Error ''Missing required categories'')"
    by (rule errorOf_Some)
next
  assume "\<not> missingCategory (idsOf cats) \<and> firstMissingIndex (idsOf cats) = Some (c, i)"
  then have "errorOf (categoriesToMetrics cats u) = Some (notFound c i)"
    by (simp add: categoriesToMetrics_error expectedError_def)
  then show "categoriesToMetrics cats u
               = Inl (Error (''Index '' @ i @ '' not found in category '' @ c))"
    unfolding notFound_def by (rule errorOf_Some)
next
  assume "\<not> missingCategory (idsOf cats) \<and> firstMissingIndex (idsOf cats) = None"
  then have "errorOf (categoriesToMetrics cats u) = None"
    by (simp add: categoriesToMetrics_error expectedError_def)
  then show "\<exists>m. categoriesToMetrics cats u = Inr m"
    by (rule errorOf_None)
qed

theorem C7_missing_witness:
  "categoriesToMetrics (butlast CATEGORIES) True = Inl (Error ''Missing required categories'')
   \<and> categoriesToMetrics (dropIndexes 2 CATEGORIES) True
       = Inl (Error ''Index pe-ratio not found in category valuation'')
   \<and> errorOf (categoriesToMetrics CATEGORIES True) = None"
proof -
  have a: "missingCategory (idsOf (butlast CATEGORIES))"
    by (simp add: missingCategory_def requiredIndexes_def idsOf_def CATEGORIES_def
          mkCategory_def mkIndex_def)
  have b: "\<not> missingCategory (idsOf (dropIndexes 2 CATEGORIES))
           \<and> firstMissingIndex (idsOf (dropIndexes 2 CATEGORIES)) = Some (''valuation'', ''pe-ratio'')"
    by (simp add: missingCategory_def firstMissingIndex_def missingIndex_def requiredFields_def
          requiredIndexes_def idsOf_def dropIndexes_def CATEGORIES_def mkCategory_def
          mkIndex_def)
  have c: "\<not> missingCategory (idsOf CATEGORIES) \<and> firstMissingIndex (idsOf CATEGORIES) = None"
    by (simp add: missingCategory_def firstMissingIndex_def missingIndex_def requiredFields_def
          requiredIndexes_def idsOf_def CATEGORIES_def mkCategory_def mkIndex_def)
  show ?thesis
    using C7_missing_amended [of "butlast CATEGORIES" True] a
          C7_missing_amended [of "dropIndexes 2 CATEGORIES" True "''valuation''" "''pe-ratio''"] b
          C7_missing_amended [of CATEGORIES True] c
    by auto
qed

section \<open>C10: market mode does not read the user values\<close>

lemma metric_erase:
  "metric False (c\<lparr>cat_indexes := map (\<lambda>i. i\<lparr>idx_userValue := None\<rparr>) (cat_indexes c)\<rparr>) i
     = metric False c i"
  by (simp add: metric_def findIndex_def find_map_option getValue_def
           split: option.splits)

lemma findCategory_erase:
  "findCategory (eraseUserValues cats) i =
     map_option (\<lambda>c. c\<lparr>cat_indexes := map (\<lambda>i. i\<lparr>idx_userValue := None\<rparr>) (cat_indexes c)\<rparr>)
       (findCategory cats i)"
  by (simp add: findCategory_def eraseUserValues_def find_map_option)

lemma categoriesToMetrics_erase:
  "categoriesToMetrics (eraseUserValues cats) False = categoriesToMetrics cats False"
  by (simp add: categoriesToMetrics_def findCategory_erase valuationMetrics_def
        sentimentMetrics_def positioningMetrics_def macroMetrics_def fundamentalsMetrics_def
        metric_erase split: option.splits)

text \<open>
  C10: with \<open>useUserValues = false\<close> the result of \<open>categoriesToMetrics\<close>, metrics or
  error, does not depend on the \<open>userValue\<close> fields: two category lists that are equal
  once every \<open>userValue\<close> is removed have the same result.
\<close>

theorem C10_market_mode_ignores_user_values:
  "eraseUserValues cats = eraseUserValues cats' \<Longrightarrow>
     categoriesToMetrics cats False = categoriesToMetrics cats' False"
  using categoriesToMetrics_erase [of cats] categoriesToMetrics_erase [of cats'] by simp

theorem C10_market_mode_witness:
  "categoriesToMetrics (setUserValues 1 CATEGORIES) False = categoriesToMetrics CATEGORIES False
   \<and> categoriesToMetrics (setUserValues 1 CATEGORIES) True \<noteq> categoriesToMetrics CATEGORIES True"
proof -
  have "eraseUserValues (setUserValues 1 CATEGORIES) = eraseUserValues CATEGORIES"
    by (simp add: eraseUserValues_def setUserValues_def CATEGORIES_def mkCategory_def
          mkIndex_def)
  then have "categoriesToMetrics (setUserValues 1 CATEGORIES) False
               = categoriesToMetrics CATEGORIES False"
    by (rule C10_market_mode_ignores_user_values)
  moreover have "categoriesToMetrics (setUserValues 1 CATEGORIES) True
                   \<noteq> categoriesToMetrics CATEGORIES True"
    by (simp add: categoriesToMetrics_def findCategory_def valuationMetrics_def
        sentimentMetrics_def positioningMetrics_def macroMetrics_def fundamentalsMetrics_def
        metric_def findIndex_def getValue_def setUserValues_def CATEGORIES_def
        mkCategory_def mkIndex_def)
  ultimately show ?thesis by simp
qed


section \<open>The state store: what an initialization and a voice call change\<close>

lemma upsert_other:
  "upsert agent A metrics store = Inr (snap, store') \<Longrightarrow> A \<noteq> B \<Longrightarrow> store' B = store B"
  by (auto simp: upsert_def split: sum.splits)

lemma upsert_conversations:
  assumes "upsert agent A metrics store = Inr (snap, store')"
  shows "conversationIds B store' = conversationIds B store
         \<and> history B c store' = history B c store"
proof (cases "B = A")
  case False
  then have "A \<noteq> B" by blast
  with assms have "store' B = store B"
    by (rule upsert_other)
  then show ?thesis
    by (simp add: conversationIds_def history_def)
next
  case True
  from assms have
    "store' A = Some \<lparr>indicators = metrics, snapshot = snap,
                      conversations =
                        (case store A of None \<Rightarrow> [] | Some old \<Rightarrow> conversations old)\<rparr>"
    by (auto simp: upsert_def split: sum.splits)
  with True show ?thesis
    by (cases "store A") (simp_all add: conversationIds_def history_def logOf_def)
qed

lemma logOf_update:
  "logOf (AList.update k v al) k' = (if k' = k then v else logOf al k')"
  by (simp add: logOf_def update_conv')

lemma appendTurn_Inr:
  assumes "appendTurn b c u a t store = Inr store'"
  shows "\<exists>r. store b = Some r
           \<and> store' b = Some (r\<lparr>conversations :=
                                  AList.update c
                                    (logOf (conversations r) c
                                       @ [\<lparr>user_text = u, agent_text = a, timestamp = t\<rparr>])
                                    (conversations r)\<rparr>)
           \<and> (\<forall>b'. b' \<noteq> b \<longrightarrow> store' b' = store b')"
  using assms by (auto simp: appendTurn_def split: option.splits)

lemma appendTurn_history:
  assumes "appendTurn b c u a t store = Inr store'"
  shows "history b' c' store' =
           (if b' = b \<and> c' = c
            then history b c store @ [\<lparr>user_text = u, agent_text = a, timestamp = t\<rparr>]
            else history b' c' store)"
proof -
  from appendTurn_Inr [OF assms] obtain r where r: "store b = Some r"
    "store' b = Some (r\<lparr>conversations :=
                          AList.update c
                            (logOf (conversations r) c
                               @ [\<lparr>user_text = u, agent_text = a, timestamp = t\<rparr>])
                            (conversations r)\<rparr>)"
    "\<And>b'. b' \<noteq> b \<Longrightarrow> store' b' = store b'"
    by blast
  show ?thesis
  proof (cases "b' = b")
    case True
    with r(1,2) show ?thesis
      by (simp add: history_def logOf_update)
  next
    case False
    with r(3) show ?thesis
      by (simp add: history_def)
  qed
qed

lemma appendTurn_conversationIds:
  assumes "appendTurn b c u a t store = Inr store'"
  shows "conversationIds b' store' =
           (if b' = b \<and> c \<notin> set (conversationIds b store)
            then conversationIds b store @ [c]
            else conversationIds b' store)"
proof -
  from appendTurn_Inr [OF assms] obtain r where r: "store b = Some r"
    "store' b = Some (r\<lparr>conversations :=
                          AList.update c
                            (logOf (conversations r) c
                               @ [\<lparr>user_text = u, agent_text = a, timestamp = t\<rparr>])
                            (conversations r)\<rparr>)"
    "\<And>b'. b' \<noteq> b \<Longrightarrow> store' b' = store b'"
    by blast
  show ?thesis
  proof (cases "b' = b")
    case True
    with r(1,2) show ?thesis
      by (simp add: conversationIds_def update_keys)
  next
    case False
    with r(3) show ?thesis
      by (simp add: conversationIds_def)
  qed
qed

text \<open>What a successful voice call returns and stores.\<close>

lemma voiceConversation_success:
  assumes "voiceConversation coll t b audio conversationId store = Inr (r, store')"
  shows "conversation_id r =
           (case conversationId of
              Some c \<Rightarrow> c
            | None \<Rightarrow> mintConversationId (conversationIds b store))"
    and "appendTurn b (conversation_id r) (user_transcript r) (bubble_response r) t store
           = Inr store'"
  using assms
  by (auto simp: voiceConversation_def Let_def split: option.splits sum.splits)

lemma length_le_foldr_max:
  "i \<in> set known \<Longrightarrow> length i \<le> foldr (\<lambda>i n. max (length i) n) known 0"
  by (induction known) auto

lemma mintConversationId_fresh: "mintConversationId known \<notin> set known"
proof
  assume "mintConversationId known \<in> set known"
  then have "length (mintConversationId known) \<le> foldr (\<lambda>i n. max (length i) n) known 0"
    by (rule length_le_foldr_max)
  then show False
    by (simp add: mintConversationId_def)
qed

text \<open>
  In every run, each conversation identifier issued for a bubble is one the bubble has
  a log for.
\<close>

lemma step_issued:
  assumes inv: "\<forall>p\<in>set issued. snd p \<in> set (conversationIds (fst p) store)"
    and st: "step agent coll (store, issued) e = (store', issued')"
  shows "\<forall>p\<in>set issued'. snd p \<in> set (conversationIds (fst p) store')"
proof (cases e)
  case (Initialize b metrics)
  show ?thesis
  proof (cases "upsert agent b metrics store")
    case (Inl err)
    with Initialize st inv show ?thesis by simp
  next
    case (Inr res)
    obtain snap s1 where res: "res = (snap, s1)" by (cases res)
    with Inr Initialize st have eq: "store' = s1" "issued' = issued" by simp_all
    from Inr res have "conversationIds b' s1 = conversationIds b' store" for b'
      using upsert_conversations [of agent b metrics store snap s1 b'] by simp
    with inv eq show ?thesis by simp
  qed
next
  case (Voice t b audio conversationId)
  show ?thesis
  proof (cases "voiceConversation coll t b audio conversationId store")
    case (Inl err)
    with Voice st inv show ?thesis by simp
  next
    case (Inr res)
    obtain r s1 where res: "res = (r, s1)" by (cases res)
    with Inr Voice st have eq: "store' = s1" "issued' = issued @ [(b, conversation_id r)]"
      by simp_all
    from Inr res have app:
      "appendTurn b (conversation_id r) (user_transcript r) (bubble_response r) t store = Inr s1"
      by (simp add: voiceConversation_success(2))
    have grow: "set (conversationIds b' store) \<subseteq> set (conversationIds b' s1)" for b'
      by (auto simp: appendTurn_conversationIds [OF app])
    have new: "conversation_id r \<in> set (conversationIds b s1)"
      by (simp add: appendTurn_conversationIds [OF app])
    show ?thesis
      using inv grow new eq by auto
  qed
qed

lemma run_issued:
  "run agent coll events = (store, issued) \<Longrightarrow>
     \<forall>p\<in>set issued. snd p \<in> set (conversationIds (fst p) store)"
proof (induction events arbitrary: store issued rule: rev_induct)
  case Nil
  then show ?case by (simp add: run_def)
next
  case (snoc e events)
  obtain s0 i0 where prev: "run agent coll events = (s0, i0)"
    by (cases "run agent coll events")
  then have inv: "\<forall>p\<in>set i0. snd p \<in> set (conversationIds (fst p) s0)"
    by (rule snoc.IH)
  from snoc.prems prev have "step agent coll (s0, i0) e = (store, issued)"
    by (simp add: run_def)
  with inv show ?case by (rule step_issued)
qed

lemma Inr_projr: "\<not> isl r \<Longrightarrow> r = Inr (fst (projr r), snd (projr r))"
  by (cases r) simp_all

text \<open>A voice call with the example collaborators, on a bubble that exists.\<close>

lemma voiceConversation_echo:
  assumes "store b = Some rec" and "audio \<noteq> []"
  shows "voiceConversation echoCollaborators t b audio conversationId store =
     Inr (\<lparr>conversation_id =
             (case conversationId of
                Some c \<Rightarrow> c
              | None \<Rightarrow> mintConversationId (map fst (conversations rec))),
           user_transcript = audio,
           bubble_response = personality (snapshot rec) @ '': '' @ audio,
           audio_base64 = personality (snapshot rec) @ '': '' @ audio,
           bubble_state = snapshot rec\<rparr>,
          store(b \<mapsto> rec\<lparr>conversations :=
            AList.update
              (case conversationId of
                 Some c \<Rightarrow> c
               | None \<Rightarrow> mintConversationId (map fst (conversations rec)))
              (logOf (conversations rec)
                 (case conversationId of
                    Some c \<Rightarrow> c
                  | None \<Rightarrow> mintConversationId (map fst (conversations rec)))
               @ [\<lparr>user_text = audio,
                    agent_text = personality (snapshot rec) @ '': '' @ audio,
                    timestamp = t\<rparr>])
              (conversations rec)\<rparr>))"
  using assms
  by (cases conversationId)
     (simp_all add: voiceConversation_def echoCollaborators_def appendTurn_def
        conversationIds_def Let_def)

section \<open>C8: isolation between bubbles\<close>

text \<open>
  C8: for distinct bubble identifiers A and B, initializing A leaves B as it was: its
  record in the store, hence its snapshot and each of its conversation logs; and on the
  client, the cached state of B stays what it was when the response for A is stored.
\<close>

theorem C8_initialize_isolation:
  assumes "A \<noteq> B"
  shows "(upsert agent A metrics store = Inr (snap, store') \<longrightarrow>
            store' B = store B
            \<and> get B store' = get B store
            \<and> history B c store' = history B c store
            \<and> conversationIds B store' = conversationIds B store)
         \<and> onSuccess cache data A [''bubbleState'', B] = cache [''bubbleState'', B]"
  using assms
  by (auto simp: upsert_other upsert_conversations get_def onSuccess_def setQueryData_def)

theorem C8_initialize_isolation_witness:
  "history ''personal_user'' ''talk''
       (snd (projr (upsert exampleAgent ''market'' (uniformMetrics 80) exampleStore)))
     = [\<lparr>user_text = ''hello'', agent_text = ''anxious: hello'', timestamp = 1\<rparr>]
   \<and> get ''personal_user''
       (snd (projr (upsert exampleAgent ''market'' (uniformMetrics 80) exampleStore)))
     = Inr \<lparr>risk_score = 50, risk_level = MEDIUM, personality = ''anxious'',
            summary = ''metrics''\<rparr>
   \<and> get ''market''
       (snd (projr (upsert exampleAgent ''market'' (uniformMetrics 80) exampleStore)))
     = Inr \<lparr>risk_score = 80, risk_level = HIGH, personality = ''anxious'',
            summary = ''metrics''\<rparr>"
proof -
  let ?res = "upsert exampleAgent ''market'' (uniformMetrics 80) exampleStore"
  have ok: "?res = Inr (fst (projr ?res), snd (projr ?res))"
    by (simp add: upsert_def exampleAgent_def uniformMetrics_def)
  have before:
    "history ''personal_user'' ''talk'' exampleStore
       = [\<lparr>user_text = ''hello'', agent_text = ''anxious: hello'', timestamp = 1\<rparr>]"
    "get ''personal_user'' exampleStore
       = Inr \<lparr>risk_score = 50, risk_level = MEDIUM, personality = ''anxious'',
              summary = ''metrics''\<rparr>"
    by (simp_all add: exampleStore_def run_def upsert_def exampleAgent_def uniformMetrics_def
          voiceConversation_def echoCollaborators_def appendTurn_def history_def logOf_def
          conversationIds_def get_def getRiskLevel_def Let_def)
  have after:
    "get ''market'' (snd (projr ?res))
       = Inr \<lparr>risk_score = 80, risk_level = HIGH, personality = ''anxious'',
              summary = ''metrics''\<rparr>"
    by (simp add: upsert_def exampleAgent_def uniformMetrics_def get_def getRiskLevel_def)
  have ne: "''market'' \<noteq> ''personal_user''" by simp
  note inst = C8_initialize_isolation
         [OF ne, of exampleAgent "uniformMetrics 80" exampleStore
            "fst (projr ?res)" "snd (projr ?res)" "''talk''"]
  note same = inst [THEN conjunct1, THEN mp, OF ok]
  note iso = same [THEN conjunct2, THEN conjunct1]
             same [THEN conjunct2, THEN conjunct2, THEN conjunct1]
  show ?thesis
    by (simp only: iso before after simp_thms)
qed

section \<open>C9: conversation continuity\<close>

text \<open>
  C9: two voice calls, one after the other, that carry the same conversation identifier
  and succeed leave, for a conversation that had no turn before, a history of exactly
  two turns, the first call's before the second's; and in every run of the service, a
  successful voice call without a conversation identifier returns an identifier that no
  earlier voice call of the run returned for that bubble, and that the bubble has no log
  for.
\<close>

theorem C9_conversation_continuity:
  "(voiceConversation coll t1 b a1 (Some cid) s = Inr (r1, s1)
      \<and> voiceConversation coll t2 b a2 (Some cid) s1 = Inr (r2, s2)
      \<and> history b cid s = [] \<longrightarrow>
        history b cid s2 =
          [\<lparr>user_text = user_transcript r1, agent_text = bubble_response r1, timestamp = t1\<rparr>,
           \<lparr>user_text = user_transcript r2, agent_text = bubble_response r2, timestamp = t2\<rparr>]
        \<and> conversation_id r1 = cid \<and> conversation_id r2 = cid)
   \<and> (run agent coll events = (s, issued)
      \<and> voiceConversation coll t b a None s = Inr (r, s') \<longrightarrow>
        (b, conversation_id r) \<notin> set issued
        \<and> conversation_id r \<notin> set (conversationIds b s)
        \<and> conversation_id r \<in> set (conversationIds b s'))"
proof (rule conjI; rule impI)
  assume calls: "voiceConversation coll t1 b a1 (Some cid) s = Inr (r1, s1)
      \<and> voiceConversation coll t2 b a2 (Some cid) s1 = Inr (r2, s2)
      \<and> history b cid s = []"
  then have c1: "conversation_id r1 = cid" and c2: "conversation_id r2 = cid"
    using voiceConversation_success(1) [of coll t1 b a1 "Some cid" s r1 s1]
          voiceConversation_success(1) [of coll t2 b a2 "Some cid" s1 r2 s2]
    by simp_all
  from calls have
    "appendTurn b cid (user_transcript r1) (bubble_response r1) t1 s = Inr s1"
    "appendTurn b cid (user_transcript r2) (bubble_response r2) t2 s1 = Inr s2"
    using voiceConversation_success(2) [of coll t1 b a1 "Some cid" s r1 s1]
          voiceConversation_success(2) [of coll t2 b a2 "Some cid" s1 r2 s2] c1 c2
    by simp_all
  then have "history b cid s2 =
      (history b cid s @ [\<lparr>user_text = user_transcript r1, agent_text = bubble_response r1,
                           timestamp = t1\<rparr>])
        @ [\<lparr>user_text = user_transcript r2, agent_text = bubble_response r2, timestamp = t2\<rparr>]"
    by (simp add: appendTurn_history)
  with calls c1 c2 show
    "history b cid s2 =
          [\<lparr>user_text = user_transcript r1, agent_text = bubble_response r1, timestamp = t1\<rparr>,
           \<lparr>user_text = user_transcript r2, agent_text = bubble_response r2, timestamp = t2\<rparr>]
        \<and> conversation_id r1 = cid \<and> conversation_id r2 = cid"
    by simp
next
  assume minted: "run agent coll events = (s, issued)
      \<and> voiceConversation coll t b a None s = Inr (r, s')"
  then have inv: "\<forall>p\<in>set issued. snd p \<in> set (conversationIds (fst p) s)"
    using run_issued by blast
  from minted have cid: "conversation_id r = mintConversationId (conversationIds b s)"
    using voiceConversation_success(1) [of coll t b a None s r s'] by simp
  then have fresh: "conversation_id r \<notin> set (conversationIds b s)"
    by (simp add: mintConversationId_fresh)
  from minted have
    "appendTurn b (conversation_id r) (user_transcript r) (bubble_response r) t s = Inr s'"
    using voiceConversation_success(2) [of coll t b a None s r s'] by simp
  then have "conversation_id r \<in> set (conversationIds b s')"
    by (simp add: appendTurn_conversationIds)
  with inv fresh show
    "(b, conversation_id r) \<notin> set issued
        \<and> conversation_id r \<notin> set (conversationIds b s)
        \<and> conversation_id r \<in> set (conversationIds b s')"
    by auto
qed

theorem C9_conversation_continuity_witness:
  "history ''market'' ''chat''
     (snd (projr (voiceConversation echoCollaborators 6 ''market'' ''second'' (Some ''chat'')
        (snd (projr (voiceConversation echoCollaborators 5 ''market'' ''first'' (Some ''chat'')
           exampleStore))))))
     = [\<lparr>user_text = ''first'', agent_text = ''anxious: first'', timestamp = 5\<rparr>,
        \<lparr>user_text = ''second'', agent_text = ''anxious: second'', timestamp = 6\<rparr>]
   \<and> snd (run exampleAgent echoCollaborators exampleEvents)
       = [(''market'', ''c''), (''market'', ''cc'')]
   \<and> conversation_id
         (fst (projr (voiceConversation echoCollaborators 3 ''market'' ''more'' None
            (fst (run exampleAgent echoCollaborators exampleEvents)))))
       = ''ccc''"
proof -
  let ?c1 = "voiceConversation echoCollaborators 5 ''market'' ''first'' (Some ''chat'') exampleStore"
  let ?c2 = "voiceConversation echoCollaborators 6 ''market'' ''second'' (Some ''chat'')
               (snd (projr ?c1))"
  let ?run = "run exampleAgent echoCollaborators exampleEvents"
  let ?c3 = "voiceConversation echoCollaborators 3 ''market'' ''more'' None (fst ?run)"
  have market: "exampleStore ''market'' =
      Some \<lparr>indicators = uniformMetrics 20,
            snapshot = \<lparr>risk_score = 20, risk_level = LOW, personality = ''anxious'',
                        summary = ''metrics''\<rparr>,
            conversations = []\<rparr>"
    by (simp add: exampleStore_def run_def upsert_def exampleAgent_def uniformMetrics_def
          voiceConversation_def echoCollaborators_def appendTurn_def history_def logOf_def
          conversationIds_def getRiskLevel_def Let_def)
  have c1: "?c1 = Inr (fst (projr ?c1), snd (projr ?c1))"
    and r1: "user_transcript (fst (projr ?c1)) = ''first''"
            "bubble_response (fst (projr ?c1)) = ''anxious: first''"
    and m1: "snd (projr ?c1) ''market'' =
      Some \<lparr>indicators = uniformMetrics 20,
            snapshot = \<lparr>risk_score = 20, risk_level = LOW, personality = ''anxious'',
                        summary = ''metrics''\<rparr>,
            conversations =
              [(''chat'', [\<lparr>user_text = ''first'', agent_text = ''anxious: first'',
                             timestamp = 5\<rparr>])]\<rparr>"
    by (simp_all add: voiceConversation_echo [where store = exampleStore and b = "''market''", OF market] logOf_def)
  have c2: "?c2 = Inr (fst (projr ?c2), snd (projr ?c2))"
    and r2: "user_transcript (fst (projr ?c2)) = ''second''"
            "bubble_response (fst (projr ?c2)) = ''anxious: second''"
    by (simp_all add: voiceConversation_echo [where store = "snd (projr ?c1)" and b = "''market''", OF m1])
  have h0: "history ''market'' ''chat'' exampleStore = []"
    by (simp add: market history_def logOf_def)
  note two = C9_conversation_continuity
      [where coll = echoCollaborators and b = "''market''" and cid = "''chat''"
         and ?t1.0 = 5 and ?a1.0 = "''first''" and s = exampleStore
         and ?r1.0 = "fst (projr ?c1)" and ?s1.0 = "snd (projr ?c1)"
         and ?t2.0 = 6 and ?a2.0 = "''second''"
         and ?r2.0 = "fst (projr ?c2)" and ?s2.0 = "snd (projr ?c2)",
       THEN conjunct1, THEN mp, OF conjI [OF c1 conjI [OF c2 h0]],
       THEN conjunct1]
  have first: "history ''market'' ''chat'' (snd (projr ?c2))
     = [\<lparr>user_text = ''first'', agent_text = ''anxious: first'', timestamp = 5\<rparr>,
        \<lparr>user_text = ''second'', agent_text = ''anxious: second'', timestamp = 6\<rparr>]"
    by (simp only: two r1 r2)
  have run: "?run = (fst ?run, snd ?run)"
    by simp
  have issued: "snd ?run = [(''market'', ''c''), (''market'', ''cc'')]"
    and m3: "fst ?run ''market'' =
      Some \<lparr>indicators = uniformMetrics 50,
            snapshot = \<lparr>risk_score = 50, risk_level = MEDIUM, personality = ''anxious'',
                        summary = ''metrics''\<rparr>,
            conversations =
              [(''c'', [\<lparr>user_text = ''hello'', agent_text = ''anxious: hello'',
                          timestamp = 1\<rparr>]),
               (''cc'', [\<lparr>user_text = ''again'', agent_text = ''anxious: again'',
                           timestamp = 2\<rparr>])]\<rparr>"
    by (simp_all add: exampleEvents_def run_def upsert_def exampleAgent_def uniformMetrics_def
          voiceConversation_def echoCollaborators_def appendTurn_def history_def logOf_def
          conversationIds_def getRiskLevel_def mintConversationId_def Let_def)
  have c3: "?c3 = Inr (fst (projr ?c3), snd (projr ?c3))"
    and r3: "conversation_id (fst (projr ?c3)) = ''ccc''"
    by (simp_all add: voiceConversation_echo [where store = "fst ?run" and b = "''market''", OF m3] mintConversationId_def)
  note minted = C9_conversation_continuity
      [where coll = echoCollaborators and b = "''market''" and agent = exampleAgent
         and events = exampleEvents and s = "fst ?run" and issued = "snd ?run"
         and t = 3 and a = "''more''" and r = "fst (projr ?c3)" and s' = "snd (projr ?c3)",
       THEN conjunct2, THEN mp, OF conjI [OF run c3]]
  show ?thesis
    using first issued r3 minted by simp
qed


end
